theory Spec2Isabelle
  imports Complex_Main
begin

section \<open>Vector and geometry kernel\<close>

text \<open>
  The TypeScript sources compute with IEEE doubles. The kernel is given in three readings.
  This section is the kernel on finite numbers taken as exact real numbers, without
  rounding and without overflow; the one place where the arithmetic of the source leaves
  the reals on finite arguments (a division \<open>0 / 0\<close> giving NaN) is written out as an
  explicit branch. The next section is the kernel on the numbers of the host language,
  NaN and the infinities included, which is what the engine calls. The section after it
  is the occultation test with every operation rounded to a double.

  \<open>CartesianVector\<close> and \<open>Point\<close> are the same structure \<open>{x, y, z}\<close> in the source
  (the engine casts one to the other); the fields are named \<open>cx\<close>, \<open>cy\<close>, \<open>cz\<close> here.
\<close>

record CartesianVector =
  cx :: real
  cy :: real
  cz :: real

type_synonym Point = CartesianVector

definition dotProduct :: "CartesianVector \<Rightarrow> CartesianVector \<Rightarrow> real" where
  "dotProduct v1 v2 = cx v1 * cx v2 + cy v1 * cy v2 + cz v1 * cz v2"

definition magnitude :: "CartesianVector \<Rightarrow> real" where
  "magnitude v = sqrt (cx v * cx v + cy v * cy v + cz v * cz v)"

definition normalizeVec :: "CartesianVector \<Rightarrow> CartesianVector" where
  "normalizeVec v =
     (let mag = magnitude v in
      if mag < 1 / 10 ^ 9 then \<lparr>cx = 0, cy = 0, cz = 0\<rparr>
      else \<lparr>cx = cx v / mag, cy = cy v / mag, cz = cz v / mag\<rparr>)"

definition subtract :: "CartesianVector \<Rightarrow> CartesianVector \<Rightarrow> CartesianVector" where
  "subtract v1 v2 = \<lparr>cx = cx v1 - cx v2, cy = cy v1 - cy v2, cz = cz v1 - cz v2\<rparr>"

definition addVec :: "CartesianVector \<Rightarrow> CartesianVector \<Rightarrow> CartesianVector" where
  "addVec v1 v2 = \<lparr>cx = cx v1 + cx v2, cy = cy v1 + cy v2, cz = cz v1 + cz v2\<rparr>"

definition scaleVec :: "CartesianVector \<Rightarrow> real \<Rightarrow> CartesianVector" where
  "scaleVec v scalar = \<lparr>cx = cx v * scalar, cy = cy v * scalar, cz = cz v * scalar\<rparr>"

definition crossProduct :: "CartesianVector \<Rightarrow> CartesianVector \<Rightarrow> CartesianVector" where
  "crossProduct v1 v2 =
     \<lparr>cx = cy v1 * cz v2 - cz v1 * cy v2,
      cy = cz v1 * cx v2 - cx v1 * cz v2,
      cz = cx v1 * cy v2 - cy v1 * cx v2\<rparr>"

subsection \<open>Communication cones\<close>

record GeometricCone =
  tip :: CartesianVector
  axis :: CartesianVector
  halfAngle :: real
  satelliteId :: "string option"

definition getNadirVector :: "CartesianVector \<Rightarrow> CartesianVector" where
  "getNadirVector satelliteEciPos = normalizeVec (scaleVec satelliteEciPos (- 1))"

text \<open>
  \<open>isPointInCone\<close>: the debug logging of the source is left out. \<open>Math.acos\<close> is
  \<open>arccos\<close>, applied to a value clamped into \<open>[-1, 1]\<close>.
\<close>

definition isPointInCone :: "CartesianVector \<Rightarrow> GeometricCone \<Rightarrow> bool" where
  "isPointInCone targetPointEci cone =
     (let vectorToTarget = subtract targetPointEci (tip cone);
          normalizedVectorToTarget = normalizeVec vectorToTarget;
          cosAngle = dotProduct (axis cone) normalizedVectorToTarget;
          clampedCosAngle = max (- 1) (min 1 cosAngle);
          angleToTargetRadians = arccos clampedCosAngle
      in angleToTargetRadians \<le> halfAngle cone)"

definition createIridiumCone ::
  "CartesianVector \<Rightarrow> real \<Rightarrow> string option \<Rightarrow> GeometricCone" where
  "createIridiumCone iridiumEciPos halfAngleRadians satId =
     \<lparr>tip = iridiumEciPos, axis = getNadirVector iridiumEciPos,
      halfAngle = halfAngleRadians, satelliteId = satId\<rparr>"

text \<open>
  \<open>createHorizonAlignedAntennaCones\<close>: the id prefix is always passed by the engine, so
  the cone ids are the prefix followed by \<open>-Ant1\<close> and \<open>-Ant2\<close>. The construction of
  the two cones from the chosen horizontal direction, which ends the source function, is
  \<open>horizonCones\<close>.
\<close>

definition horizonCones ::
  "CartesianVector \<Rightarrow> CartesianVector \<Rightarrow> real \<Rightarrow> string \<Rightarrow> GeometricCone list" where
  "horizonCones satelliteEciPos horizontalVelocityComponent halfAngleRadians entityIdPrefix =
     (let antennaAxis1 = normalizeVec horizontalVelocityComponent;
          antennaAxis2 = scaleVec antennaAxis1 (- 1);
          cone1 = \<lparr>tip = satelliteEciPos, axis = antennaAxis1, halfAngle = halfAngleRadians,
                   satelliteId = Some (entityIdPrefix @ ''-Ant1'')\<rparr>;
          cone2 = \<lparr>tip = satelliteEciPos, axis = antennaAxis2, halfAngle = halfAngleRadians,
                   satelliteId = Some (entityIdPrefix @ ''-Ant2'')\<rparr>
      in [cone1, cone2])"

definition createHorizonAlignedAntennaCones ::
  "CartesianVector \<Rightarrow> CartesianVector \<Rightarrow> real \<Rightarrow> string \<Rightarrow> GeometricCone list" where
  "createHorizonAlignedAntennaCones satelliteEciPos satelliteEciVelocity halfAngleRadians entityIdPrefix =
     (let zenithVector = normalizeVec satelliteEciPos in
      if magnitude zenithVector < 1 / 10 ^ 9 then []
      else
        (let velocityComponentParallelToZenith =
               scaleVec zenithVector (dotProduct satelliteEciVelocity zenithVector);
             horizontalVelocityComponent =
               subtract satelliteEciVelocity velocityComponentParallelToZenith;
             magHorizontalVelocity = magnitude horizontalVelocityComponent
         in if magHorizontalVelocity < 1 / 10 ^ 9 then
              (let globalX = \<lparr>cx = 1, cy = 0, cz = 0\<rparr>;
                   globalY = \<lparr>cx = 0, cy = 1, cz = 0\<rparr>;
                   arbitraryHorizontalDir =
                     (if \<bar>dotProduct zenithVector globalX\<bar> < 99 / 100
                      then normalizeVec (crossProduct zenithVector globalX)
                      else normalizeVec (crossProduct zenithVector globalY))
               in if magnitude arbitraryHorizontalDir < 1 / 10 ^ 9 then []
                  else horizonCones satelliteEciPos arbitraryHorizontalDir halfAngleRadians
                         entityIdPrefix)
            else horizonCones satelliteEciPos horizontalVelocityComponent halfAngleRadians
                   entityIdPrefix))"

definition RADIUS_EARTH_KM :: real where
  "RADIUS_EARTH_KM = 6371"

subsection \<open>Earth occultation test\<close>

text \<open>
  \<open>isLineOfSightClear\<close> exists twice in the repository (the engine's geometry module and
  \<open>src/utils/geometry.ts\<close>) with the same statements. When both points coincide the
  source divides \<open>0 / 0\<close>: both parameters are NaN, every comparison with them is false
  and the function returns true; that is the branch \<open>a = 0\<close> below.
\<close>

definition isLineOfSightClear :: "Point \<Rightarrow> Point \<Rightarrow> Point \<Rightarrow> real \<Rightarrow> bool" where
  "isLineOfSightClear point1 point2 earthCenter earthRadius =
     (let d = \<lparr>cx = cx point2 - cx point1, cy = cy point2 - cy point1, cz = cz point2 - cz point1\<rparr>;
          f = \<lparr>cx = cx point1 - cx earthCenter, cy = cy point1 - cy earthCenter,
               cz = cz point1 - cz earthCenter\<rparr>;
          a = cx d * cx d + cy d * cy d + cz d * cz d;
          b = 2 * (cx f * cx d + cy f * cy d + cz f * cz d);
          c = cx f * cx f + cy f * cy f + cz f * cz f - earthRadius * earthRadius;
          discriminant = b * b - 4 * a * c
      in if discriminant < 0 then True
         else if a = 0 then True
         else
           (let discriminant' = sqrt discriminant;
                t1 = (- b - discriminant') / (2 * a);
                t2 = (- b + discriminant') / (2 * a)
            in if (t1 \<ge> 0 \<and> t1 \<le> 1) \<or> (t2 \<ge> 0 \<and> t2 \<le> 1) then
                 (let p1DistSq = cx f * cx f + cy f * cy f + cz f * cz f;
                      p2Vec = \<lparr>cx = cx point2 - cx earthCenter, cy = cy point2 - cy earthCenter,
                                cz = cz point2 - cz earthCenter\<rparr>;
                      p2DistSq = cx p2Vec * cx p2Vec + cy p2Vec * cy p2Vec + cz p2Vec * cz p2Vec;
                      rSq = earthRadius * earthRadius
                  in if (p1DistSq < rSq \<and> p2DistSq > rSq) \<or> (p1DistSq > rSq \<and> p2DistSq < rSq)
                     then False
                     else if p1DistSq > rSq \<and> p2DistSq > rSq then False
                     else if p1DistSq \<le> rSq \<and> p2DistSq \<le> rSq then True
                     else False)
               else True))"

text \<open>The engine calls it with the default center (the origin) and default radius.\<close>

definition isLineOfSightClearDefault :: "Point \<Rightarrow> Point \<Rightarrow> bool" where
  "isLineOfSightClearDefault point1 point2 =
     isLineOfSightClear point1 point2 \<lparr>cx = 0, cy = 0, cz = 0\<rparr> RADIUS_EARTH_KM"

section \<open>The kernel on the numbers of the host language\<close>

text \<open>
  The library that propagates the orbits can hand back coordinates that are NaN or
  infinite, and the engine passes them to the kernel. A \<open>number\<close> is a finite number, one
  of the two infinities or NaN. The operations on finite numbers are the exact ones of
  the reals (no rounding and no overflow, as in the previous section); on the other
  values they follow IEEE 754: NaN is contagious and compares false with everything,
  \<open>\<infinity> - \<infinity>\<close>, \<open>0 \<times> \<infinity>\<close>, \<open>\<infinity> / \<infinity>\<close> and \<open>0 / 0\<close> are NaN. The two zeros of the
  doubles are one zero here: a division of a number that is not zero by zero has the sign
  of the dividend (the kernel only divides by square roots and by sums of squares, which
  are not negative zeros).
\<close>

datatype number = Finite real | PlusInfinity | MinusInfinity | NaN

fun signedInfinity :: "bool \<Rightarrow> number" where
  "signedInfinity True = PlusInfinity"
| "signedInfinity False = MinusInfinity"

instantiation number :: "{plus, minus, uminus, times, inverse, ord}"
begin

fun plus_number :: "number \<Rightarrow> number \<Rightarrow> number" where
  "plus_number NaN w = NaN"
| "plus_number v NaN = NaN"
| "plus_number (Finite x) (Finite y) = Finite (x + y)"
| "plus_number (Finite x) w = w"
| "plus_number v (Finite y) = v"
| "plus_number PlusInfinity PlusInfinity = PlusInfinity"
| "plus_number MinusInfinity MinusInfinity = MinusInfinity"
| "plus_number PlusInfinity MinusInfinity = NaN"
| "plus_number MinusInfinity PlusInfinity = NaN"

fun uminus_number :: "number \<Rightarrow> number" where
  "uminus_number (Finite x) = Finite (- x)"
| "uminus_number PlusInfinity = MinusInfinity"
| "uminus_number MinusInfinity = PlusInfinity"
| "uminus_number NaN = NaN"

definition minus_number :: "number \<Rightarrow> number \<Rightarrow> number" where
  "minus_number v w = v + (- w)"

fun times_number :: "number \<Rightarrow> number \<Rightarrow> number" where
  "times_number NaN w = NaN"
| "times_number v NaN = NaN"
| "times_number (Finite x) (Finite y) = Finite (x * y)"
| "times_number (Finite x) PlusInfinity = (if x = 0 then NaN else signedInfinity (0 < x))"
| "times_number (Finite x) MinusInfinity = (if x = 0 then NaN else signedInfinity (x < 0))"
| "times_number PlusInfinity (Finite y) = (if y = 0 then NaN else signedInfinity (0 < y))"
| "times_number MinusInfinity (Finite y) = (if y = 0 then NaN else signedInfinity (y < 0))"
| "times_number PlusInfinity PlusInfinity = PlusInfinity"
| "times_number MinusInfinity MinusInfinity = PlusInfinity"
| "times_number PlusInfinity MinusInfinity = MinusInfinity"
| "times_number MinusInfinity PlusInfinity = MinusInfinity"

fun divide_number :: "number \<Rightarrow> number \<Rightarrow> number" where
  "divide_number NaN w = NaN"
| "divide_number v NaN = NaN"
| "divide_number (Finite x) (Finite y) =
     (if y \<noteq> 0 then Finite (x / y) else if x = 0 then NaN else signedInfinity (0 < x))"
| "divide_number (Finite x) w = Finite 0"
| "divide_number PlusInfinity (Finite y) = signedInfinity (0 \<le> y)"
| "divide_number MinusInfinity (Finite y) = signedInfinity (y < 0)"
| "divide_number v w = NaN"

definition inverse_number :: "number \<Rightarrow> number" where
  "inverse_number v =
     (case v of
        Finite y \<Rightarrow> if y \<noteq> 0 then Finite (1 / y) else PlusInfinity
      | PlusInfinity \<Rightarrow> Finite 0
      | MinusInfinity \<Rightarrow> Finite 0
      | NaN \<Rightarrow> NaN)"

fun less_number :: "number \<Rightarrow> number \<Rightarrow> bool" where
  "less_number (Finite x) (Finite y) = (x < y)"
| "less_number (Finite x) PlusInfinity = True"
| "less_number MinusInfinity (Finite y) = True"
| "less_number MinusInfinity PlusInfinity = True"
| "less_number v w = False"

fun less_eq_number :: "number \<Rightarrow> number \<Rightarrow> bool" where
  "less_eq_number (Finite x) (Finite y) = (x \<le> y)"
| "less_eq_number (Finite x) PlusInfinity = True"
| "less_eq_number MinusInfinity (Finite y) = True"
| "less_eq_number MinusInfinity PlusInfinity = True"
| "less_eq_number PlusInfinity PlusInfinity = True"
| "less_eq_number MinusInfinity MinusInfinity = True"
| "less_eq_number v w = False"

instance ..

end

text \<open>The functions \<open>isNaN\<close>, \<open>Math.sqrt\<close>, \<open>Math.abs\<close>, \<open>Math.acos\<close>, \<open>Math.max\<close>, \<open>Math.min\<close>.\<close>

fun isNaN :: "number \<Rightarrow> bool" where
  "isNaN NaN = True"
| "isNaN v = False"

fun mathSqrt :: "number \<Rightarrow> number" where
  "mathSqrt (Finite x) = (if x < 0 then NaN else Finite (sqrt x))"
| "mathSqrt PlusInfinity = PlusInfinity"
| "mathSqrt v = NaN"

fun mathAbs :: "number \<Rightarrow> number" where
  "mathAbs (Finite x) = Finite \<bar>x\<bar>"
| "mathAbs NaN = NaN"
| "mathAbs v = PlusInfinity"

fun mathAcos :: "number \<Rightarrow> number" where
  "mathAcos (Finite x) = (if - 1 \<le> x \<and> x \<le> 1 then Finite (arccos x) else NaN)"
| "mathAcos v = NaN"

definition mathMax :: "number \<Rightarrow> number \<Rightarrow> number" where
  "mathMax v w = (if isNaN v \<or> isNaN w then NaN else if v < w then w else v)"

definition mathMin :: "number \<Rightarrow> number \<Rightarrow> number" where
  "mathMin v w = (if isNaN v \<or> isNaN w then NaN else if w < v then w else v)"

text \<open>
  The vectors and cones of the source over these numbers, and the kernel once more,
  statement by statement; each name is the name of the source followed by \<open>Num\<close>.
\<close>

record NumberVector =
  nx :: number
  ny :: number
  nz :: number

definition dotProductNum :: "NumberVector \<Rightarrow> NumberVector \<Rightarrow> number" where
  "dotProductNum v1 v2 = nx v1 * nx v2 + ny v1 * ny v2 + nz v1 * nz v2"

definition magnitudeNum :: "NumberVector \<Rightarrow> number" where
  "magnitudeNum v = mathSqrt (nx v * nx v + ny v * ny v + nz v * nz v)"

definition normalizeNum :: "NumberVector \<Rightarrow> NumberVector" where
  "normalizeNum v =
     (let mag = magnitudeNum v in
      if mag < Finite (1 / 10 ^ 9) then \<lparr>nx = Finite 0, ny = Finite 0, nz = Finite 0\<rparr>
      else \<lparr>nx = nx v / mag, ny = ny v / mag, nz = nz v / mag\<rparr>)"

definition subtractNum :: "NumberVector \<Rightarrow> NumberVector \<Rightarrow> NumberVector" where
  "subtractNum v1 v2 = \<lparr>nx = nx v1 - nx v2, ny = ny v1 - ny v2, nz = nz v1 - nz v2\<rparr>"

definition scaleNum :: "NumberVector \<Rightarrow> number \<Rightarrow> NumberVector" where
  "scaleNum v scalar = \<lparr>nx = nx v * scalar, ny = ny v * scalar, nz = nz v * scalar\<rparr>"

definition crossProductNum :: "NumberVector \<Rightarrow> NumberVector \<Rightarrow> NumberVector" where
  "crossProductNum v1 v2 =
     \<lparr>nx = ny v1 * nz v2 - nz v1 * ny v2,
      ny = nz v1 * nx v2 - nx v1 * nz v2,
      nz = nx v1 * ny v2 - ny v1 * nx v2\<rparr>"

record NumberCone =
  coneTip :: NumberVector
  coneAxis :: NumberVector
  coneHalfAngle :: number
  coneSatelliteId :: "string option"

definition getNadirVectorNum :: "NumberVector \<Rightarrow> NumberVector" where
  "getNadirVectorNum satelliteEciPos = normalizeNum (scaleNum satelliteEciPos (Finite (- 1)))"

definition isPointInConeNum :: "NumberVector \<Rightarrow> NumberCone \<Rightarrow> bool" where
  "isPointInConeNum targetPointEci cone =
     (let vectorToTarget = subtractNum targetPointEci (coneTip cone);
          normalizedVectorToTarget = normalizeNum vectorToTarget;
          cosAngle = dotProductNum (coneAxis cone) normalizedVectorToTarget;
          clampedCosAngle = mathMax (Finite (- 1)) (mathMin (Finite 1) cosAngle);
          angleToTargetRadians = mathAcos clampedCosAngle
      in angleToTargetRadians \<le> coneHalfAngle cone)"

definition createIridiumConeNum ::
  "NumberVector \<Rightarrow> number \<Rightarrow> string option \<Rightarrow> NumberCone" where
  "createIridiumConeNum iridiumEciPos halfAngleRadians satId =
     \<lparr>coneTip = iridiumEciPos, coneAxis = getNadirVectorNum iridiumEciPos,
      coneHalfAngle = halfAngleRadians, coneSatelliteId = satId\<rparr>"

definition horizonConesNum ::
  "NumberVector \<Rightarrow> NumberVector \<Rightarrow> number \<Rightarrow> string \<Rightarrow> NumberCone list" where
  "horizonConesNum satelliteEciPos horizontalVelocityComponent halfAngleRadians entityIdPrefix =
     (let antennaAxis1 = normalizeNum horizontalVelocityComponent;
          antennaAxis2 = scaleNum antennaAxis1 (Finite (- 1));
          cone1 = \<lparr>coneTip = satelliteEciPos, coneAxis = antennaAxis1,
                   coneHalfAngle = halfAngleRadians,
                   coneSatelliteId = Some (entityIdPrefix @ ''-Ant1'')\<rparr>;
          cone2 = \<lparr>coneTip = satelliteEciPos, coneAxis = antennaAxis2,
                   coneHalfAngle = halfAngleRadians,
                   coneSatelliteId = Some (entityIdPrefix @ ''-Ant2'')\<rparr>
      in [cone1, cone2])"

definition createHorizonAlignedAntennaConesNum ::
  "NumberVector \<Rightarrow> NumberVector \<Rightarrow> number \<Rightarrow> string \<Rightarrow> NumberCone list" where
  "createHorizonAlignedAntennaConesNum satelliteEciPos satelliteEciVelocity halfAngleRadians
       entityIdPrefix =
     (let zenithVector = normalizeNum satelliteEciPos in
      if magnitudeNum zenithVector < Finite (1 / 10 ^ 9) then []
      else
        (let velocityComponentParallelToZenith =
               scaleNum zenithVector (dotProductNum satelliteEciVelocity zenithVector);
             horizontalVelocityComponent =
               subtractNum satelliteEciVelocity velocityComponentParallelToZenith;
             magHorizontalVelocity = magnitudeNum horizontalVelocityComponent
         in if magHorizontalVelocity < Finite (1 / 10 ^ 9) then
              (let globalX = \<lparr>nx = Finite 1, ny = Finite 0, nz = Finite 0\<rparr>;
                   globalY = \<lparr>nx = Finite 0, ny = Finite 1, nz = Finite 0\<rparr>;
                   arbitraryHorizontalDir =
                     (if mathAbs (dotProductNum zenithVector globalX) < Finite (99 / 100)
                      then normalizeNum (crossProductNum zenithVector globalX)
                      else normalizeNum (crossProductNum zenithVector globalY))
               in if magnitudeNum arbitraryHorizontalDir < Finite (1 / 10 ^ 9) then []
                  else horizonConesNum satelliteEciPos arbitraryHorizontalDir halfAngleRadians
                         entityIdPrefix)
            else horizonConesNum satelliteEciPos horizontalVelocityComponent halfAngleRadians
                   entityIdPrefix))"

text \<open>
  The occultation test. Nothing is written out for coinciding points here: the
  division \<open>0 / 0\<close> is NaN, and the comparisons with it are false.
\<close>

definition isLineOfSightClearNum ::
  "NumberVector \<Rightarrow> NumberVector \<Rightarrow> NumberVector \<Rightarrow> number \<Rightarrow> bool" where
  "isLineOfSightClearNum point1 point2 earthCenter earthRadius =
     (let d = \<lparr>nx = nx point2 - nx point1, ny = ny point2 - ny point1, nz = nz point2 - nz point1\<rparr>;
          f = \<lparr>nx = nx point1 - nx earthCenter, ny = ny point1 - ny earthCenter,
               nz = nz point1 - nz earthCenter\<rparr>;
          a = nx d * nx d + ny d * ny d + nz d * nz d;
          b = Finite 2 * (nx f * nx d + ny f * ny d + nz f * nz d);
          c = nx f * nx f + ny f * ny f + nz f * nz f - earthRadius * earthRadius;
          discriminant = b * b - Finite 4 * a * c
      in if discriminant < Finite 0 then True
         else
           (let discriminant' = mathSqrt discriminant;
                t1 = (- b - discriminant') / (Finite 2 * a);
                t2 = (- b + discriminant') / (Finite 2 * a)
            in if (t1 \<ge> Finite 0 \<and> t1 \<le> Finite 1) \<or> (t2 \<ge> Finite 0 \<and> t2 \<le> Finite 1) then
                 (let p1DistSq = nx f * nx f + ny f * ny f + nz f * nz f;
                      p2Vec = \<lparr>nx = nx point2 - nx earthCenter, ny = ny point2 - ny earthCenter,
                                nz = nz point2 - nz earthCenter\<rparr>;
                      p2DistSq = nx p2Vec * nx p2Vec + ny p2Vec * ny p2Vec + nz p2Vec * nz p2Vec;
                      rSq = earthRadius * earthRadius
                  in if (p1DistSq < rSq \<and> p2DistSq > rSq) \<or> (p1DistSq > rSq \<and> p2DistSq < rSq)
                     then False
                     else if p1DistSq > rSq \<and> p2DistSq > rSq then False
                     else if p1DistSq \<le> rSq \<and> p2DistSq \<le> rSq then True
                     else False)
               else True))"

definition isLineOfSightClearDefaultNum :: "NumberVector \<Rightarrow> NumberVector \<Rightarrow> bool" where
  "isLineOfSightClearDefaultNum point1 point2 =
     isLineOfSightClearNum point1 point2 \<lparr>nx = Finite 0, ny = Finite 0, nz = Finite 0\<rparr>
       (Finite RADIUS_EARTH_KM)"

text \<open>The vectors and cones whose coordinates are finite.\<close>

definition finiteVector :: "CartesianVector \<Rightarrow> NumberVector" where
  "finiteVector v = \<lparr>nx = Finite (cx v), ny = Finite (cy v), nz = Finite (cz v)\<rparr>"

definition finiteCone :: "GeometricCone \<Rightarrow> NumberCone" where
  "finiteCone cone =
     \<lparr>coneTip = finiteVector (tip cone), coneAxis = finiteVector (axis cone),
      coneHalfAngle = Finite (halfAngle cone), coneSatelliteId = satelliteId cone\<rparr>"

section \<open>The occultation test in double precision\<close>










section \<open>Numbers, dates and strings of the host language\<close>

text \<open>
  A \<open>Date\<close> is its time value, an integer number of milliseconds. \<open>new Date(v)\<close> truncates
  a fractional \<open>v\<close> toward zero (\<open>timeClip\<close>); the range limit of \<open>Date\<close> (beyond which the
  date is invalid) is not modelled. The operator \<open>%\<close> is the truncated remainder.
\<close>

definition truncateTowardZero :: "real \<Rightarrow> int" where
  "truncateTowardZero v = (if 0 \<le> v then \<lfloor>v\<rfloor> else \<lceil>v\<rceil>)"

definition timeClip :: "real \<Rightarrow> int" where
  "timeClip v = truncateTowardZero v"

definition jsRemainder :: "real \<Rightarrow> real \<Rightarrow> real" where
  "jsRemainder v w = v - w * real_of_int (truncateTowardZero (v / w))"

text \<open>\<open>Math.atan2\<close> on real numbers, with its value on the negative real axis at \<open>\<pi>\<close>.\<close>

definition mathAtan2 :: "real \<Rightarrow> real \<Rightarrow> real" where
  "mathAtan2 y x =
     (if 0 < x then arctan (y / x)
      else if x < 0 then (if 0 \<le> y then arctan (y / x) + pi else arctan (y / x) - pi)
      else if 0 < y then pi / 2
      else if y < 0 then - (pi / 2)
      else 0)"

definition jsIntRemainder :: "int \<Rightarrow> int \<Rightarrow> int" where
  "jsIntRemainder v w = sgn v * (\<bar>v\<bar> mod \<bar>w\<bar>)"

definition jsRound :: "real \<Rightarrow> int" where
  "jsRound v = \<lfloor>v + 1 / 2\<rfloor>"

fun natToString :: "nat \<Rightarrow> string" where
  "natToString n =
     (if n < 10 then [char_of (48 + n)] else natToString (n div 10) @ [char_of (48 + n mod 10)])"

declare natToString.simps [simp del]

definition intToString :: "int \<Rightarrow> string" where
  "intToString v = (if v < 0 then CHR ''-'' # natToString (nat (- v)) else natToString (nat v))"

definition padStart :: "string \<Rightarrow> nat \<Rightarrow> char \<Rightarrow> string" where
  "padStart str n padChar = replicate (n - length str) padChar @ str"

definition padEnd :: "string \<Rightarrow> nat \<Rightarrow> char \<Rightarrow> string" where
  "padEnd str n padChar = str @ replicate (n - length str) padChar"

definition sliceLast :: "nat \<Rightarrow> string \<Rightarrow> string" where
  "sliceLast n str = drop (length str - n) str"

section \<open>Orbit propagator adapter\<close>

text \<open>
  The SGP4 library \<open>satellite.js\<close>, the TLE download, the number formatting and the
  calendar of the host language are outside the repository; they are the fields of
  \<open>Externals\<close>, over an arbitrary type \<open>'r\<close> of satellite records. A library call that can
  throw has an outcome for it.
\<close>

record GeodeticPosition =
  latitude :: real
  longitude :: real
  altitude :: real

text \<open>\<open>LookAngles\<close> has the fields \<open>latitude\<close>, \<open>longitude\<close> (radians) and \<open>height\<close>.\<close>

record LookAngles =
  latitudeRad :: real
  longitudeRad :: real
  height :: real

record SatellitePosition =
  timestamp :: int
  positionGeodetic :: GeodeticPosition
  positionEci :: NumberVector
  velocityEci :: NumberVector

record TLE =
  name :: string
  line1 :: string
  line2 :: string

datatype 'r TwolineResult = TwolineThrows | TwolineSatrec 'r

text \<open>
  What \<open>satellite.propagate\<close> hands back: an exception, \<open>false\<close>, or a position and a
  velocity, each of which may be \<open>false\<close> (\<open>PositionFalse\<close>, and \<open>None\<close> for the velocity).
  A position may carry a coordinate that is \<open>null\<close> or undefined
  (\<open>PositionNullCoordinate\<close>); otherwise its coordinates and those of the velocity are
  numbers, which may be NaN or infinite.
\<close>

datatype EciPosition = PositionFalse | PositionNullCoordinate | PositionVec NumberVector

datatype PropagateResult =
  PropagateThrows | PropagateFalse | PositionAndVelocity EciPosition "NumberVector option"

datatype IridiumDatasetType = IRIDIUM | IRIDIUM_NEXT

record 'r Externals =
  twoline2satrec :: "string \<Rightarrow> string \<Rightarrow> 'r TwolineResult"
  satrecError :: "'r \<Rightarrow> int"
  propagate :: "'r \<Rightarrow> int \<Rightarrow> PropagateResult"
  eciToGeodetic :: "NumberVector \<Rightarrow> int \<Rightarrow> LookAngles option"
  degreesLat :: "real \<Rightarrow> real"
  degreesLong :: "real \<Rightarrow> real"
  radiansLong :: "real \<Rightarrow> real option"
  fetchIridiumTLEs :: "IridiumDatasetType list option \<Rightarrow> TLE list"
  toFixed :: "real \<Rightarrow> nat \<Rightarrow> string"
  getUTCFullYear :: "int \<Rightarrow> int"
  getUTCMonth :: "int \<Rightarrow> int"
  getUTCDate :: "int \<Rightarrow> int"
  getUTCHours :: "int \<Rightarrow> int"
  getUTCMinutes :: "int \<Rightarrow> int"
  getUTCSeconds :: "int \<Rightarrow> int"
  getUTCMilliseconds :: "int \<Rightarrow> int"
  dateUTCJanuaryFirst :: "int \<Rightarrow> int"

text \<open>
  \<open>eciToGeodetic ext p t\<close> stands for \<open>satellite.eciToGeodetic(p, satellite.gstime(t))\<close>,
  \<open>None\<close> when one of the two throws; the geodetic coordinates are only stored, and are
  taken as real numbers. \<open>dateUTCJanuaryFirst ext y\<close> is \<open>Date.UTC(y, 0, 1, 0, 0, 0, 0)\<close>, and
  \<open>getUTCFullYear\<close> to \<open>getUTCMilliseconds\<close> are the methods of a date, given its time
  value. \<open>radiansLong ext d\<close> is \<open>None\<close> when \<open>satellite.radiansLong(d)\<close> throws, which the
  library does for a longitude outside its range. \<open>degreesLat\<close> and \<open>degreesLong\<close> are
  functions from numbers to numbers, as the declaration file of the repository types
  them: the source calls them on angles that the library or \<open>Math.atan2\<close> produced.
  \<open>propagateSatellite\<close> is called with a record that is not \<open>null\<close>, so its first test is
  left out. It tests the three coordinates of the position with \<open>isNaN\<close> and nothing
  else: an infinite coordinate, and any coordinate of the velocity, passes.
\<close>

definition initializeSatrecFromTLE :: "'r Externals \<Rightarrow> TLE \<Rightarrow> 'r option" where
  "initializeSatrecFromTLE ext tle =
     (case twoline2satrec ext (line1 tle) (line2 tle) of
        TwolineThrows \<Rightarrow> None
      | TwolineSatrec satrec \<Rightarrow> if satrecError ext satrec \<noteq> 0 then None else Some satrec)"

record PropagationOutput =
  outPositionEci :: NumberVector
  outVelocityEci :: NumberVector
  outPositionGeodetic :: LookAngles

definition propagateSatellite :: "'r Externals \<Rightarrow> 'r \<Rightarrow> int \<Rightarrow> PropagationOutput option" where
  "propagateSatellite ext satrec date =
     (case propagate ext satrec date of
        PropagateThrows \<Rightarrow> None
      | PropagateFalse \<Rightarrow> None
      | PositionAndVelocity PositionFalse velocity \<Rightarrow> None
      | PositionAndVelocity PositionNullCoordinate velocity \<Rightarrow> None
      | PositionAndVelocity (PositionVec pos) None \<Rightarrow> None
      | PositionAndVelocity (PositionVec pos) (Some vel) \<Rightarrow>
          if isNaN (nx pos) \<or> isNaN (ny pos) \<or> isNaN (nz pos) then None
          else
            (case eciToGeodetic ext pos date of
               None \<Rightarrow> None
             | Some geo \<Rightarrow>
                 Some \<lparr>outPositionEci = pos, outVelocityEci = vel,
                       outPositionGeodetic = geo\<rparr>))"

definition eciToCartesian :: "NumberVector \<Rightarrow> NumberVector" where
  "eciToCartesian eci = \<lparr>nx = nx eci, ny = ny eci, nz = nz eci\<rparr>"

definition geodeticToPosition :: "'r Externals \<Rightarrow> LookAngles \<Rightarrow> GeodeticPosition" where
  "geodeticToPosition ext geo =
     \<lparr>latitude = degreesLat ext (latitudeRad geo),
      longitude = degreesLong ext (longitudeRad geo),
      altitude = height geo\<rparr>"

section \<open>Beacon orbit synthesizer\<close>

datatype BeaconOrbitParams =
  SunSynchronous real real
  | NonPolar real real "real option"

text \<open>
  \<open>SunSynchronous altitude localSolarTimeAtDescendingNode\<close> and
  \<open>NonPolar altitude inclination raan\<close>, the \<open>raan\<close> being optional. The source's branch
  for an unknown orbit type has no value of this type.
\<close>

fun altitudeOf :: "BeaconOrbitParams \<Rightarrow> real" where
  "altitudeOf (SunSynchronous alt lst) = alt"
| "altitudeOf (NonPolar alt inc raanOpt) = alt"

definition GM_EARTH :: real where
  "GM_EARTH = 3986004418 / 10000"

definition SECONDS_PER_DAY :: real where
  "SECONDS_PER_DAY = 60 * 60 * 24"

definition TLE_LINE_LENGTH :: nat where
  "TLE_LINE_LENGTH = 69"

definition DEFAULT_ECCENTRICITY :: real where
  "DEFAULT_ECCENTRICITY = 1 / 10 ^ 7"

definition calculateTLEChecksum :: "string \<Rightarrow> nat" where
  "calculateTLEChecksum line =
     foldl (\<lambda>sum char.
              if 48 \<le> (of_char char :: nat) \<and> (of_char char :: nat) \<le> 57
              then sum + ((of_char char :: nat) - 48)
              else if char = CHR ''-'' then sum + 1 else sum) 0 line mod 10"

definition formatStringPadded :: "string \<Rightarrow> nat \<Rightarrow> char \<Rightarrow> bool \<Rightarrow> string" where
  "formatStringPadded str n padChar padAtStart =
     (if length str > n then take n str
      else if padAtStart then padStart str n padChar
      else padEnd str n padChar)"

definition formatAngleForTLE :: "'r Externals \<Rightarrow> real \<Rightarrow> string" where
  "formatAngleForTLE ext angleDeg =
     (let s4 = toFixed ext angleDeg 4;
          s = (if length s4 > 8
               then (let s3 = toFixed ext angleDeg 3
                     in if length s3 > 8 then toFixed ext angleDeg 2 else s3)
               else s4)
      in formatStringPadded s 8 CHR '' '' True)"

definition formatEccentricityForTLE :: "real \<Rightarrow> string" where
  "formatEccentricityForTLE ecc = padStart (intToString (jsRound (ecc * 10 ^ 7))) 7 CHR ''0''"

definition integerPart :: "string \<Rightarrow> string" where
  "integerPart s = takeWhile (\<lambda>c. c \<noteq> CHR ''.'') s"

definition formatMeanMotionForTLE :: "'r Externals \<Rightarrow> real \<Rightarrow> string" where
  "formatMeanMotionForTLE ext mmRevPerDay =
     (let s8 = toFixed ext mmRevPerDay 8;
          s = (if length (integerPart s8) > 2
               then (let s7 = toFixed ext mmRevPerDay 7
                     in if length (integerPart s7) > 2 then toFixed ext mmRevPerDay 6 else s7)
               else s8)
      in formatStringPadded s 11 CHR '' '' True)"

definition formatEpochDayForTLE :: "'r Externals \<Rightarrow> real \<Rightarrow> string" where
  "formatEpochDayForTLE ext epochDay = formatStringPadded (toFixed ext epochDay 8) 12 CHR '' '' True"

record TLEEpoch =
  epochyr :: int
  epochdays :: real
  yearForDesignator :: int

definition getTLEEpochDateTimeUTC :: "'r Externals \<Rightarrow> int \<Rightarrow> TLEEpoch" where
  "getTLEEpochDateTimeUTC ext date =
     (let year = getUTCFullYear ext date;
          startOfYear = dateUTCJanuaryFirst ext year;
          msInDay = 24 * 60 * 60 * 1000
      in \<lparr>epochyr = jsIntRemainder year 100,
          epochdays = real_of_int (date - startOfYear) / msInDay + 1,
          yearForDesignator = year\<rparr>)"

text \<open>
  The Julian date of a date and the low-precision position of the Sun. \<open>getSunRaDec\<close>
  converts its angles with \<open>radiansLong\<close>: \<open>None\<close> is the exception of that call, which
  \<open>getSunRaDec\<close> does not catch.
\<close>

definition getJulianDate :: "'r Externals \<Rightarrow> int \<Rightarrow> real" where
  "getJulianDate ext date =
     (let Y0 = getUTCFullYear ext date;
          M0 = getUTCMonth ext date + 1;
          D = real_of_int (getUTCDate ext date)
              + real_of_int (getUTCHours ext date) / 24
              + real_of_int (getUTCMinutes ext date) / (24 * 60)
              + real_of_int (getUTCSeconds ext date) / (24 * 60 * 60)
              + real_of_int (getUTCMilliseconds ext date) / (24 * 60 * 60 * 1000);
          Y = (if M0 \<le> 2 then Y0 - 1 else Y0);
          M = (if M0 \<le> 2 then M0 + 12 else M0);
          A = \<lfloor>real_of_int Y / 100\<rfloor>;
          B = 2 - A + \<lfloor>real_of_int A / 4\<rfloor>;
          JD = real_of_int \<lfloor>36525 / 100 * real_of_int (Y + 4716)\<rfloor>
               + real_of_int \<lfloor>306001 / 10000 * real_of_int (M + 1)\<rfloor>
               + D + real_of_int B - 15245 / 10
      in JD)"

record SunRaDec =
  ra :: real
  dec :: real

definition getSunRaDec :: "'r Externals \<Rightarrow> int \<Rightarrow> SunRaDec option" where
  "getSunRaDec ext date =
     (let jd = getJulianDate ext date;
          n = jd - 2451545;
          L0 = jsRemainder (28046 / 100 + 9856474 / 10000000 * n) 360;
          L1 = (if L0 < 0 then L0 + 360 else L0)
      in case radiansLong ext L1 of
           None \<Rightarrow> None
         | Some L \<Rightarrow>
             (let g0 = jsRemainder (357528 / 1000 + 9856003 / 10000000 * n) 360;
                  g1 = (if g0 < 0 then g0 + 360 else g0)
              in case radiansLong ext g1 of
                   None \<Rightarrow> None
                 | Some g \<Rightarrow>
                     (case radiansLong ext (1915 / 1000) of
                        None \<Rightarrow> None
                      | Some k1 \<Rightarrow>
                          (case radiansLong ext (20 / 1000) of
                             None \<Rightarrow> None
                           | Some k2 \<Rightarrow>
                               (let lambda = L + k1 * sin g + k2 * sin (2 * g)
                                in case radiansLong ext (23439 / 1000 - 4 / 10000000 * n) of
                                     None \<Rightarrow> None
                                   | Some epsilon \<Rightarrow>
                                       Some \<lparr>ra = mathAtan2 (cos epsilon * sin lambda) (cos lambda),
                                             dec = arcsin (sin epsilon * sin lambda)\<rparr>)))))"

text \<open>
  The inclination and the RAAN of the Beacon, the branch on the orbit type in the middle
  of \<open>createTLEStringsFromBeaconParams\<close>; \<open>None\<close> is its early \<open>return null\<close>.
\<close>

definition beaconInclinationAndRaan :: "BeaconOrbitParams \<Rightarrow> real \<Rightarrow> (real \<times> real) option" where
  "beaconInclinationAndRaan beaconParams sunRaEpochDeg =
     (case beaconParams of
        SunSynchronous ssoAltitude lstDNAboveEquatorHours \<Rightarrow>
          if lstDNAboveEquatorHours < 0 \<or> lstDNAboveEquatorHours \<ge> 24 then None
          else
            (let lstANHours = jsRemainder (lstDNAboveEquatorHours + 12) 24;
                 raanDeg0 = jsRemainder (lstANHours * 15 + sunRaEpochDeg) 360;
                 raanDeg = (if raanDeg0 < 0 then raanDeg0 + 360 else raanDeg0);
                 inclinationDeg0 = 986 / 10;
                 inclinationDeg =
                   (if ssoAltitude < 500 then 974 / 10
                    else if ssoAltitude > 1000 then 995 / 10
                    else inclinationDeg0)
             in Some (inclinationDeg, raanDeg))
      | NonPolar npAltitude inclinationDeg raanOpt \<Rightarrow>
          if inclinationDeg < 0 \<or> inclinationDeg > 180 then None
          else
            (let raanDeg = (case raanOpt of Some r \<Rightarrow> r | None \<Rightarrow> 0)
             in if raanDeg < 0 \<or> raanDeg \<ge> 360 then None
                else Some (inclinationDeg, raanDeg)))"

definition tleLine1 :: "'r Externals \<Rightarrow> TLEEpoch \<Rightarrow> string" where
  "tleLine1 ext ep =
     (let intlDesigYear = sliceLast 2 (intToString (yearForDesignator ep));
          satNumPadded = formatStringPadded ''99990'' 5 CHR '' '' True;
          epochYrStr = formatStringPadded (intToString (epochyr ep)) 2 CHR ''0'' True;
          epochDayStr = formatEpochDayForTLE ext (epochdays ep);
          elementSetNumPadded = formatStringPadded (intToString 999) 4 CHR '' '' True;
          line = ''1 '' @ satNumPadded @ ''U'' @ '' ''
                 @ formatStringPadded intlDesigYear 2 CHR ''0'' True
                 @ formatStringPadded ''999'' 3 CHR ''0'' True
                 @ formatStringPadded ''A'' 3 CHR '' '' False
                 @ '' '' @ epochYrStr @ epochDayStr @ '' ''
                 @ '' .00000000'' @ '' '' @ '' 00000-0'' @ '' '' @ '' 00000-0'' @ '' ''
                 @ intToString 0 @ '' '' @ elementSetNumPadded
      in line @ intToString (int (calculateTLEChecksum line)))"

definition tleLine2 :: "'r Externals \<Rightarrow> real \<Rightarrow> real \<Rightarrow> real \<Rightarrow> string" where
  "tleLine2 ext inclinationDeg raanDeg meanMotionRevPerDay =
     (let satNumPadded = formatStringPadded ''99990'' 5 CHR '' '' True;
          line = ''2 '' @ satNumPadded @ '' ''
                 @ formatAngleForTLE ext inclinationDeg @ '' ''
                 @ formatAngleForTLE ext raanDeg @ '' ''
                 @ formatEccentricityForTLE DEFAULT_ECCENTRICITY @ '' ''
                 @ formatAngleForTLE ext 0 @ '' ''
                 @ formatAngleForTLE ext 0 @ '' ''
                 @ formatMeanMotionForTLE ext meanMotionRevPerDay
                 @ formatStringPadded ''0'' 5 CHR '' '' True
      in line @ intToString (int (calculateTLEChecksum line)))"

text \<open>
  Of the debugging record that \<open>createTLEStringsFromBeaconParams\<close> returns beside the two
  lines, the computed elements are kept. The two lines are built by \<open>tleLine1\<close> and
  \<open>tleLine2\<close>, piece by piece as in the source. The position of the Sun is computed
  for both orbit types, before the branch on the type; when \<open>getSunRaDec\<close> throws, the
  \<open>catch\<close> of the source returns \<open>null\<close>. The other host functions are total.
\<close>

record TLEStrings =
  tle1 :: string
  tle2 :: string
  altitudeKm :: real
  semiMajorAxisKm :: real
  calculatedInclinationDeg :: real
  calculatedRaanDeg :: real
  meanMotionRevPerDay :: real

definition createTLEStringsFromBeaconParams ::
  "'r Externals \<Rightarrow> BeaconOrbitParams \<Rightarrow> int \<Rightarrow> TLEStrings option" where
  "createTLEStringsFromBeaconParams ext beaconParams epochDate =
     (let ep = getTLEEpochDateTimeUTC ext epochDate;
          altKm = altitudeOf beaconParams
      in if altKm \<le> 0 then None
         else
           (let smaKm = RADIUS_EARTH_KM + altKm;
                meanMotionRadPerSec = sqrt (GM_EARTH / smaKm ^ 3);
                mmRevPerDay = meanMotionRadPerSec * (SECONDS_PER_DAY / (2 * pi))
            in case getSunRaDec ext epochDate of
                 None \<Rightarrow> None
               | Some sunRaDecEpoch \<Rightarrow>
                   (let sunRaEpochDeg = degreesLong ext (ra sunRaDecEpoch)
                    in case beaconInclinationAndRaan beaconParams sunRaEpochDeg of
                         None \<Rightarrow> None
                       | Some (inclinationDeg, raanDeg) \<Rightarrow>
                           (let l1 = tleLine1 ext ep in
                            if length l1 \<noteq> TLE_LINE_LENGTH then None
                            else
                              (let l2 = tleLine2 ext inclinationDeg raanDeg mmRevPerDay in
                               if length l2 \<noteq> TLE_LINE_LENGTH then None
                               else Some \<lparr>tle1 = l1, tle2 = l2, altitudeKm = altKm,
                                          semiMajorAxisKm = smaKm,
                                          calculatedInclinationDeg = inclinationDeg,
                                          calculatedRaanDeg = raanDeg,
                                          meanMotionRevPerDay = mmRevPerDay\<rparr>)))))"

text \<open>
  The end that the two constructors of a Beacon record share: \<open>twoline2satrec\<close> on the
  two lines, in a \<open>try\<close> block, and the test of the error code.
\<close>

definition satrecFromTLEStrings :: "'r Externals \<Rightarrow> TLEStrings \<Rightarrow> 'r option" where
  "satrecFromTLEStrings ext tleDataResult =
     (case twoline2satrec ext (tle1 tleDataResult) (tle2 tleDataResult) of
        TwolineThrows \<Rightarrow> None
      | TwolineSatrec satrec \<Rightarrow> if satrecError ext satrec \<noteq> 0 then None else Some satrec)"

text \<open>
  The two constructors of a Beacon record take the parameters of their own orbit type;
  the engine calls each only with that type, and the other case is written as a failure.
\<close>

definition createSatrecForNonPolarBeacon ::
  "'r Externals \<Rightarrow> BeaconOrbitParams \<Rightarrow> int \<Rightarrow> 'r option" where
  "createSatrecForNonPolarBeacon ext params epoch =
     (case params of
        SunSynchronous alt lst \<Rightarrow> None
      | NonPolar alt inc raanOpt \<Rightarrow>
          if alt \<le> 0 \<or> inc < 0 \<or> inc > 180 then None
          else if (case raanOpt of None \<Rightarrow> False | Some r \<Rightarrow> r < 0 \<or> r \<ge> 360) then None
          else
            (case createTLEStringsFromBeaconParams ext params epoch of
               None \<Rightarrow> None
             | Some tleDataResult \<Rightarrow> satrecFromTLEStrings ext tleDataResult))"

definition createSatrecForSunSynchronousBeacon ::
  "'r Externals \<Rightarrow> BeaconOrbitParams \<Rightarrow> int \<Rightarrow> 'r option" where
  "createSatrecForSunSynchronousBeacon ext params epoch =
     (case params of
        NonPolar alt inc raanOpt \<Rightarrow> None
      | SunSynchronous alt lst \<Rightarrow>
          if alt \<le> 0 \<or> lst < 0 \<or> lst \<ge> 24 then None
          else
            (case createTLEStringsFromBeaconParams ext params epoch of
               None \<Rightarrow> None
             | Some tleDataResult \<Rightarrow> satrecFromTLEStrings ext tleDataResult))"

section \<open>Simulation engine\<close>

record Handshake =
  handshakeTimestamp :: int
  iridiumSatelliteId :: string
  beaconPosition :: GeodeticPosition
  iridiumPosition :: GeodeticPosition

record BlackoutPeriod =
  startTime :: int
  endTime :: int
  duration :: real

datatype HandshakeMode = OneWay | BiDirectional

record SimulationConfig =
  beaconParams :: BeaconOrbitParams
  iridiumFovDeg :: real
  beaconFovDeg :: real
  simulationDurationHours :: real
  simulationTimeStepSec :: real
  iridiumDatasetSources :: "IridiumDatasetType list option"
  handshakeMode :: HandshakeMode
  startTimeISO :: "string option"

text \<open>An initialized Iridium satellite, \<open>{id, rec}\<close> in the source.\<close>

record 'r IridiumSat =
  satId :: string
  satRec :: 'r

text \<open>
  The logs that the run accumulates and returns. \<open>SimulationResults\<close> adds the totals
  computed after the loop; \<open>LoopState\<close> adds the other variables of the loop. The
  counter \<open>simulationStepCounter\<close> of the source only decides which steps are written to
  the console; it and the console output are left out. The field \<open>timestamp\<close> of a
  \<open>Handshake\<close> is \<open>handshakeTimestamp\<close> here.
\<close>

record SimulationLogs =
  totalHandshakes :: nat
  handshakeLog :: "Handshake list"
  activeLinksLog :: "string set list"
  blackoutPeriods :: "BlackoutPeriod list"
  beaconTrack :: "SatellitePosition list"
  iridiumTracks :: "string \<rightharpoonup> SatellitePosition list"

record SimulationResults = SimulationLogs +
  totalBlackoutDuration :: real
  averageBlackoutDuration :: real
  numberOfBlackouts :: nat

record LoopState = SimulationLogs +
  currentTime :: int
  previousConnectedIridiumSatIds :: "string set"
  currentBlackout :: "int option"
  currentConnectedIridiumSatIdsThisStep :: "string set"
  beaconIsInCommunicationThisStep :: bool

datatype SimulationError =
  BeaconInitializationFailed | NoIridiumTLEsFetched | NoIridiumSatRecsInitialized

text \<open>The half angles, computed from the configuration, which holds finite numbers.\<close>

definition iridiumNadirHalfAngleRad :: "SimulationConfig \<Rightarrow> real" where
  "iridiumNadirHalfAngleRad config = iridiumFovDeg config * (pi / 180) / 2"

definition beaconHorizonHalfAngleRad :: "SimulationConfig \<Rightarrow> real" where
  "beaconHorizonHalfAngleRad config = beaconFovDeg config * (pi / 180) / 2"

definition iridiumHorizonScanningHalfAngleRad :: "SimulationConfig \<Rightarrow> real" where
  "iridiumHorizonScanningHalfAngleRad config = iridiumFovDeg config * (pi / 180) / 2"

text \<open>
  The value of the variable \<open>canCommunicate\<close> of the source once the cone test of the
  configured mode and the occultation test are done. A \<open>for\<close> loop that sets a flag and
  breaks at the first cone holding the point is \<open>list_ex\<close>.
\<close>

definition canCommunicate ::
  "SimulationConfig \<Rightarrow> string \<Rightarrow> NumberVector \<Rightarrow> NumberVector \<Rightarrow> NumberVector
     \<Rightarrow> NumberVector \<Rightarrow> bool" where
  "canCommunicate config iridiumId beaconCurrentPosEci beaconCurrentVelEci iridiumCurrentPosEci
       iridiumCurrentVelEci =
     (let coneTest =
            (case handshakeMode config of
               OneWay \<Rightarrow>
                 isPointInConeNum beaconCurrentPosEci
                   (createIridiumConeNum iridiumCurrentPosEci
                      (Finite (iridiumNadirHalfAngleRad config)) (Some iridiumId))
             | BiDirectional \<Rightarrow>
                 (let iridiumHorizonCones =
                        createHorizonAlignedAntennaConesNum iridiumCurrentPosEci
                          iridiumCurrentVelEci
                          (Finite (iridiumHorizonScanningHalfAngleRad config))
                          (iridiumId @ ''-HScan'');
                      beaconHorizonCones =
                        createHorizonAlignedAntennaConesNum beaconCurrentPosEci beaconCurrentVelEci
                          (Finite (beaconHorizonHalfAngleRad config)) ''Beacon-HScan'';
                      beaconInIridiumHorizonCone =
                        list_ex (isPointInConeNum beaconCurrentPosEci) iridiumHorizonCones;
                      iridiumInBeaconHorizonCone =
                        (if beaconInIridiumHorizonCone
                         then list_ex (isPointInConeNum iridiumCurrentPosEci) beaconHorizonCones
                         else False)
                  in beaconInIridiumHorizonCone \<and> iridiumInBeaconHorizonCone))
      in if coneTest then isLineOfSightClearDefaultNum beaconCurrentPosEci iridiumCurrentPosEci
         else False)"

text \<open>
  \<open>iridiumTracks[id].push(p)\<close>. Every id of the constellation is made a key before the
  loop starts, so the lookup finds an array; a missing key leaves the map unchanged here.
\<close>

definition pushTrack ::
  "(string \<rightharpoonup> SatellitePosition list) \<Rightarrow> string \<Rightarrow> SatellitePosition
     \<Rightarrow> (string \<rightharpoonup> SatellitePosition list)" where
  "pushTrack tracks sid p =
     (case tracks sid of None \<Rightarrow> tracks | Some track \<Rightarrow> tracks(sid \<mapsto> track @ [p]))"

text \<open>One pass of the body of the \<open>for\<close> loop over the Iridium satellites.\<close>

definition iridiumIteration ::
  "'r Externals \<Rightarrow> SimulationConfig \<Rightarrow> NumberVector \<Rightarrow> NumberVector \<Rightarrow> GeodeticPosition
     \<Rightarrow> LoopState \<Rightarrow> 'r IridiumSat \<Rightarrow> LoopState" where
  "iridiumIteration ext config beaconCurrentPosEci beaconCurrentVelEci beaconCurrentGeodetic st
       iridiumSat =
     (case propagateSatellite ext (satRec iridiumSat) (currentTime st) of
        None \<Rightarrow> st
      | Some iridiumPropagation \<Rightarrow>
          (let iridiumCurrentPosEci = eciToCartesian (outPositionEci iridiumPropagation);
               iridiumCurrentVelEci = eciToCartesian (outVelocityEci iridiumPropagation);
               iridiumCurrentGeodetic =
                 geodeticToPosition ext (outPositionGeodetic iridiumPropagation);
               st1 = st\<lparr>iridiumTracks :=
                          pushTrack (iridiumTracks st) (satId iridiumSat)
                            \<lparr>timestamp = currentTime st,
                             positionGeodetic = iridiumCurrentGeodetic,
                             positionEci = iridiumCurrentPosEci,
                             velocityEci = iridiumCurrentVelEci\<rparr>\<rparr>
           in if canCommunicate config (satId iridiumSat) beaconCurrentPosEci beaconCurrentVelEci
                   iridiumCurrentPosEci iridiumCurrentVelEci
              then
                (let st2 = st1\<lparr>beaconIsInCommunicationThisStep := True,
                               currentConnectedIridiumSatIdsThisStep :=
                                 insert (satId iridiumSat)
                                   (currentConnectedIridiumSatIdsThisStep st1)\<rparr>
                 in if satId iridiumSat \<notin> previousConnectedIridiumSatIds st2
                    then st2\<lparr>totalHandshakes := totalHandshakes st2 + 1,
                             handshakeLog := handshakeLog st2 @
                               [\<lparr>handshakeTimestamp = currentTime st2,
                                 iridiumSatelliteId = satId iridiumSat,
                                 beaconPosition = beaconCurrentGeodetic,
                                 iridiumPosition = iridiumCurrentGeodetic\<rparr>]\<rparr>
                    else st2)
              else st1))"

text \<open>The update of the blackout state at the end of an evaluated step.\<close>

definition updateBlackout :: "LoopState \<Rightarrow> LoopState" where
  "updateBlackout st =
     (if \<not> beaconIsInCommunicationThisStep st then
        (case currentBlackout st of
           None \<Rightarrow> st\<lparr>currentBlackout := Some (currentTime st)\<rparr>
         | Some blackoutStart \<Rightarrow> st)
      else
        (case currentBlackout st of
           Some blackoutStart \<Rightarrow>
             (let blackoutEndTimeMs = currentTime st
              in st\<lparr>blackoutPeriods := blackoutPeriods st @
                       [\<lparr>startTime = blackoutStart, endTime = blackoutEndTimeMs,
                         duration = real_of_int (blackoutEndTimeMs - blackoutStart) / 1000\<rparr>],
                     currentBlackout := None\<rparr>)
         | None \<Rightarrow> st))"

definition timeStepMs :: "SimulationConfig \<Rightarrow> real" where
  "timeStepMs config = simulationTimeStepSec config * 1000"

definition simulationDurationMs :: "SimulationConfig \<Rightarrow> real" where
  "simulationDurationMs config = simulationDurationHours config * 60 * 60 * 1000"

definition advanceTime :: "SimulationConfig \<Rightarrow> int \<Rightarrow> int" where
  "advanceTime config t = timeClip (real_of_int t + timeStepMs config)"

text \<open>
  The body of the \<open>while\<close> loop. A failed Beacon propagation is the \<open>continue\<close> of the
  source: only the time advances.
\<close>

definition simulationStep ::
  "'r Externals \<Rightarrow> SimulationConfig \<Rightarrow> 'r \<Rightarrow> 'r IridiumSat list \<Rightarrow> LoopState \<Rightarrow> LoopState" where
  "simulationStep ext config beaconSatRec iridiumSatRecs st =
     (case propagateSatellite ext beaconSatRec (currentTime st) of
        None \<Rightarrow> st\<lparr>currentTime := advanceTime config (currentTime st)\<rparr>
      | Some beaconPropagation \<Rightarrow>
          (let beaconCurrentPosEci = eciToCartesian (outPositionEci beaconPropagation);
               beaconCurrentVelEci = eciToCartesian (outVelocityEci beaconPropagation);
               beaconCurrentGeodetic =
                 geodeticToPosition ext (outPositionGeodetic beaconPropagation);
               st1 = st\<lparr>beaconTrack := beaconTrack st @
                          [\<lparr>timestamp = currentTime st,
                            positionGeodetic = beaconCurrentGeodetic,
                            positionEci = beaconCurrentPosEci,
                            velocityEci = beaconCurrentVelEci\<rparr>],
                        currentConnectedIridiumSatIdsThisStep := {},
                        beaconIsInCommunicationThisStep := False\<rparr>;
               st2 = foldl (iridiumIteration ext config beaconCurrentPosEci beaconCurrentVelEci
                              beaconCurrentGeodetic) st1 iridiumSatRecs;
               st3 = st2\<lparr>previousConnectedIridiumSatIds :=
                           currentConnectedIridiumSatIdsThisStep st2,
                         activeLinksLog := activeLinksLog st2 @
                           [currentConnectedIridiumSatIdsThisStep st2]\<rparr>;
               st4 = updateBlackout st3
           in st4\<lparr>currentTime := advanceTime config (currentTime st4)\<rparr>))"

text \<open>
  The \<open>while\<close> loop. It need not end (a time step below one millisecond never advances
  the date), so it is a partial function: \<open>None\<close> is a loop that runs forever.
\<close>

partial_function (option) simulationLoop ::
  "'r Externals \<Rightarrow> SimulationConfig \<Rightarrow> 'r \<Rightarrow> 'r IridiumSat list \<Rightarrow> int \<Rightarrow> LoopState
     \<Rightarrow> LoopState option" where
  "simulationLoop ext config beaconSatRec iridiumSatRecs endDate st =
     (if currentTime st \<le> endDate
      then simulationLoop ext config beaconSatRec iridiumSatRecs endDate
             (simulationStep ext config beaconSatRec iridiumSatRecs st)
      else Some st)"

text \<open>Closing a blackout that is still open when the loop has ended.\<close>

definition finalizeBlackout :: "LoopState \<Rightarrow> LoopState" where
  "finalizeBlackout st =
     (case currentBlackout st of
        None \<Rightarrow> st
      | Some blackoutStart \<Rightarrow>
          (let endTimeMs = currentTime st
           in st\<lparr>blackoutPeriods := blackoutPeriods st @
                    [\<lparr>startTime = blackoutStart, endTime = endTimeMs,
                      duration = real_of_int (endTimeMs - blackoutStart) / 1000\<rparr>]\<rparr>))"

definition calculateFinalResults :: "LoopState \<Rightarrow> SimulationResults" where
  "calculateFinalResults st =
     (let total = foldl (\<lambda>acc p. acc + duration p) 0 (blackoutPeriods st);
          n = length (blackoutPeriods st);
          average = (if n > 0 then total / real n else 0)
      in \<lparr>totalHandshakes = totalHandshakes st,
          handshakeLog = handshakeLog st,
          activeLinksLog = activeLinksLog st,
          blackoutPeriods = blackoutPeriods st,
          beaconTrack = beaconTrack st,
          iridiumTracks = iridiumTracks st,
          totalBlackoutDuration = total,
          averageBlackoutDuration = average,
          numberOfBlackouts = n\<rparr>)"

definition initializeBeacon :: "'r Externals \<Rightarrow> SimulationConfig \<Rightarrow> int \<Rightarrow> 'r option" where
  "initializeBeacon ext config startDate =
     (case beaconParams config of
        SunSynchronous alt lst \<Rightarrow>
          createSatrecForSunSynchronousBeacon ext (beaconParams config) startDate
      | NonPolar alt inc raanOpt \<Rightarrow>
          createSatrecForNonPolarBeacon ext (beaconParams config) startDate)"

definition initializeIridiumSatRecs :: "'r Externals \<Rightarrow> TLE list \<Rightarrow> 'r IridiumSat list" where
  "initializeIridiumSatRecs ext iridiumTLEs =
     List.map_filter
       (\<lambda>tle. case initializeSatrecFromTLE ext tle of
                 None \<Rightarrow> None
               | Some r \<Rightarrow> Some \<lparr>satId = name tle, satRec = r\<rparr>)
       iridiumTLEs"

definition initialLoopState :: "'r IridiumSat list \<Rightarrow> int \<Rightarrow> LoopState" where
  "initialLoopState iridiumSatRecs startDate =
     \<lparr>totalHandshakes = 0,
      handshakeLog = [],
      activeLinksLog = [],
      blackoutPeriods = [],
      beaconTrack = [],
      iridiumTracks = foldl (\<lambda>tracks isat. tracks(satId isat \<mapsto> [])) Map.empty iridiumSatRecs,
      currentTime = startDate,
      previousConnectedIridiumSatIds = {},
      currentBlackout = None,
      currentConnectedIridiumSatIdsThisStep = {},
      beaconIsInCommunicationThisStep = False\<rparr>"

definition endDateOf :: "SimulationConfig \<Rightarrow> int \<Rightarrow> int" where
  "endDateOf config startDate = timeClip (real_of_int startDate + simulationDurationMs config)"

text \<open>
  \<open>runSimulation\<close>: \<open>Some (Inl e)\<close> is the run aborted by the error \<open>e\<close>, \<open>Some (Inr r)\<close>
  the run returning \<open>r\<close>, \<open>None\<close> the run that never returns. The start date is the
  argument \<open>startTime\<close> of the source, a valid date.
\<close>

definition runSimulation ::
  "'r Externals \<Rightarrow> SimulationConfig \<Rightarrow> int \<Rightarrow> (SimulationError + SimulationResults) option" where
  "runSimulation ext config startDate =
     (case initializeBeacon ext config startDate of
        None \<Rightarrow> Some (Inl BeaconInitializationFailed)
      | Some beaconSatRec \<Rightarrow>
          (let iridiumTLEs = fetchIridiumTLEs ext (iridiumDatasetSources config) in
           if length iridiumTLEs = 0 then Some (Inl NoIridiumTLEsFetched)
           else
             (let iridiumSatRecs = initializeIridiumSatRecs ext iridiumTLEs in
              if length iridiumSatRecs = 0 then Some (Inl NoIridiumSatRecsInitialized)
              else
                (case simulationLoop ext config beaconSatRec iridiumSatRecs
                        (endDateOf config startDate)
                        (initialLoopState iridiumSatRecs startDate) of
                   None \<Rightarrow> None
                 | Some st \<Rightarrow> Some (Inr (calculateFinalResults (finalizeBlackout st)))))))"

section \<open>Specification-side definitions\<close>

subsection \<open>The decision table of the occultation test, as the specification words it\<close>

text \<open>
  The quadratic \<open>a t\<^sup>2 + b t + c\<close> of the segment \<open>p1 + t (p2 - p1)\<close> against the sphere,
  its discriminant and its two intersection parameters.
\<close>

definition quadA :: "Point \<Rightarrow> Point \<Rightarrow> real" where
  "quadA p1 p2 = dotProduct (subtract p2 p1) (subtract p2 p1)"

definition quadB :: "Point \<Rightarrow> Point \<Rightarrow> Point \<Rightarrow> real" where
  "quadB p1 p2 c = 2 * dotProduct (subtract p1 c) (subtract p2 p1)"

definition quadC :: "Point \<Rightarrow> Point \<Rightarrow> real \<Rightarrow> real" where
  "quadC p c r = dotProduct (subtract p c) (subtract p c) - r * r"

definition quadDiscriminant :: "Point \<Rightarrow> Point \<Rightarrow> Point \<Rightarrow> real \<Rightarrow> real" where
  "quadDiscriminant p1 p2 c r =
     quadB p1 p2 c * quadB p1 p2 c - 4 * quadA p1 p2 * quadC p1 c r"

definition param1 :: "Point \<Rightarrow> Point \<Rightarrow> Point \<Rightarrow> real \<Rightarrow> real" where
  "param1 p1 p2 c r =
     (- quadB p1 p2 c - sqrt (quadDiscriminant p1 p2 c r)) / (2 * quadA p1 p2)"

definition param2 :: "Point \<Rightarrow> Point \<Rightarrow> Point \<Rightarrow> real \<Rightarrow> real" where
  "param2 p1 p2 c r =
     (- quadB p1 p2 c + sqrt (quadDiscriminant p1 p2 c r)) / (2 * quadA p1 p2)"

text \<open>The point of the line through \<open>p1\<close> and \<open>p2\<close> at the parameter \<open>t\<close>.\<close>

definition pointOnLine :: "Point \<Rightarrow> Point \<Rightarrow> real \<Rightarrow> Point" where
  "pointOnLine p1 p2 t = addVec p1 (scaleVec (subtract p2 p1) t)"

definition onSegment :: "real \<Rightarrow> bool" where
  "onSegment t = (0 \<le> t \<and> t \<le> 1)"

definition endpointVerdict :: "real \<Rightarrow> real \<Rightarrow> bool" where
  "endpointVerdict c1 c2 =
     (if (c1 < 0 \<and> c2 > 0) \<or> (c1 > 0 \<and> c2 < 0) then False
      else if c1 > 0 \<and> c2 > 0 then False
      else if c1 \<le> 0 \<and> c2 \<le> 0 then True
      else False)"

text \<open>Position of a point relative to the sphere, by its Euclidean distance to the center.\<close>

definition strictlyInside :: "Point \<Rightarrow> Point \<Rightarrow> real \<Rightarrow> bool" where
  "strictlyInside p c r = (magnitude (subtract p c) < r)"

definition strictlyOutside :: "Point \<Rightarrow> Point \<Rightarrow> real \<Rightarrow> bool" where
  "strictlyOutside p c r = (magnitude (subtract p c) > r)"

definition insideOrOnSurface :: "Point \<Rightarrow> Point \<Rightarrow> real \<Rightarrow> bool" where
  "insideOrOnSurface p c r = (magnitude (subtract p c) \<le> r)"

text \<open>The table: \<open>True\<close> is "clear", \<open>False\<close> is "blocked".\<close>

definition occultationTable :: "Point \<Rightarrow> Point \<Rightarrow> Point \<Rightarrow> real \<Rightarrow> bool" where
  "occultationTable p1 p2 c r =
     (if quadDiscriminant p1 p2 c r < 0 then True
      else if \<not> onSegment (param1 p1 p2 c r) \<and> \<not> onSegment (param2 p1 p2 c r) then True
      else if (strictlyInside p1 c r \<and> strictlyOutside p2 c r)
            \<or> (strictlyOutside p1 c r \<and> strictlyInside p2 c r) then False
      else if strictlyOutside p1 c r \<and> strictlyOutside p2 c r then False
      else if insideOrOnSurface p1 c r \<and> insideOrOnSurface p2 c r then True
      else False)"


text \<open>
  The angle the specification measures for \<open>isPointInCone\<close>: the arc cosine of the
  clamped dot product of the cone axis with the unit vector from the cone tip to the target.
\<close>

definition unitVector :: "CartesianVector \<Rightarrow> CartesianVector" where
  "unitVector v = scaleVec v (1 / magnitude v)"

definition measuredAngle :: "CartesianVector \<Rightarrow> GeometricCone \<Rightarrow> real" where
  "measuredAngle target cone =
     arccos (max (- 1) (min 1 (dotProduct (axis cone) (unitVector (subtract target (tip cone))))))"

subsection \<open>Angles in degrees\<close>

text \<open>The reduction of an angle in degrees to \<open>[0, 360)\<close>, as \<open>getSunRaDec\<close> does it.\<close>

definition reduceDegrees :: "real \<Rightarrow> real" where
  "reduceDegrees v = (let r = jsRemainder v 360 in if r < 0 then r + 360 else r)"

subsection \<open>Failures of a propagation\<close>


subsection \<open>Links, active-link sets and handshakes at an instant\<close>

text \<open>
  Whether the link between the Beacon and an Iridium satellite is active at an instant
  \<open>t\<close>: both propagate at \<open>t\<close> and the engine's test \<open>canCommunicate\<close> holds of their
  positions. \<open>activeLinkIds\<close> is the set of ids of the satellites with an active link,
  \<open>stepHandshakes\<close> the handshake records of the satellites, in constellation order,
  whose link is active at \<open>t\<close> and whose id is not in the set \<open>prev\<close>.
\<close>

definition pairActive ::
  "'r Externals \<Rightarrow> SimulationConfig \<Rightarrow> PropagationOutput \<Rightarrow> int \<Rightarrow> 'r IridiumSat \<Rightarrow> bool" where
  "pairActive ext config bp t isat =
     (case propagateSatellite ext (satRec isat) t of
        None \<Rightarrow> False
      | Some ip \<Rightarrow>
          canCommunicate config (satId isat)
            (eciToCartesian (outPositionEci bp)) (eciToCartesian (outVelocityEci bp))
            (eciToCartesian (outPositionEci ip)) (eciToCartesian (outVelocityEci ip)))"

definition linkActive ::
  "'r Externals \<Rightarrow> SimulationConfig \<Rightarrow> 'r \<Rightarrow> int \<Rightarrow> 'r IridiumSat \<Rightarrow> bool" where
  "linkActive ext config beaconSatRec t isat =
     (case propagateSatellite ext beaconSatRec t of
        None \<Rightarrow> False
      | Some bp \<Rightarrow> pairActive ext config bp t isat)"

definition activeLinkIds ::
  "'r Externals \<Rightarrow> SimulationConfig \<Rightarrow> 'r \<Rightarrow> 'r IridiumSat list \<Rightarrow> int \<Rightarrow> string set" where
  "activeLinkIds ext config beaconSatRec sats t =
     set (map satId (filter (linkActive ext config beaconSatRec t) sats))"

definition handshakeRecord ::
  "'r Externals \<Rightarrow> PropagationOutput \<Rightarrow> int \<Rightarrow> 'r IridiumSat \<Rightarrow> Handshake list" where
  "handshakeRecord ext bp t isat =
     (case propagateSatellite ext (satRec isat) t of
        None \<Rightarrow> []
      | Some ip \<Rightarrow>
          [\<lparr>handshakeTimestamp = t, iridiumSatelliteId = satId isat,
            beaconPosition = geodeticToPosition ext (outPositionGeodetic bp),
            iridiumPosition = geodeticToPosition ext (outPositionGeodetic ip)\<rparr>])"

definition stepHandshakes ::
  "'r Externals \<Rightarrow> SimulationConfig \<Rightarrow> 'r \<Rightarrow> 'r IridiumSat list \<Rightarrow> string set \<Rightarrow> int
     \<Rightarrow> Handshake list" where
  "stepHandshakes ext config beaconSatRec sats prev t =
     (case propagateSatellite ext beaconSatRec t of
        None \<Rightarrow> []
      | Some bp \<Rightarrow>
          concat (map (\<lambda>isat. if linkActive ext config beaconSatRec t isat \<and> satId isat \<notin> prev
                              then handshakeRecord ext bp t isat else []) sats))"

text \<open>
  The handshake log that the state machine of the specification produces over the
  evaluated instants \<open>ts\<close>, in order: at each instant the handshakes of the links that are
  active and were not in the active set of the instant before (\<open>prev\<close> at the first one).
\<close>

fun expectedHandshakeLog ::
  "'r Externals \<Rightarrow> SimulationConfig \<Rightarrow> 'r \<Rightarrow> 'r IridiumSat list \<Rightarrow> string set \<Rightarrow> int list
     \<Rightarrow> Handshake list" where
  "expectedHandshakeLog ext config b sats prev [] = []"
| "expectedHandshakeLog ext config b sats prev (t # ts) =
     stepHandshakes ext config b sats prev t
     @ expectedHandshakeLog ext config b sats (activeLinkIds ext config b sats t) ts"

definition constellationOfRun :: "'r Externals \<Rightarrow> SimulationConfig \<Rightarrow> 'r IridiumSat list" where
  "constellationOfRun ext config =
     initializeIridiumSatRecs ext (fetchIridiumTLEs ext (iridiumDatasetSources config))"

definition lastActive ::
  "'r Externals \<Rightarrow> SimulationConfig \<Rightarrow> 'r \<Rightarrow> 'r IridiumSat list \<Rightarrow> string set \<Rightarrow> int list
     \<Rightarrow> string set" where
  "lastActive ext config b sats prev ts =
     (if ts = [] then prev else activeLinkIds ext config b sats (last ts))"

text \<open>The entry of the Beacon track for an instant at which the Beacon propagated.\<close>

definition beaconTrackEntry :: "'r Externals \<Rightarrow> PropagationOutput \<Rightarrow> int \<Rightarrow> SatellitePosition" where
  "beaconTrackEntry ext bp t =
     \<lparr>timestamp = t,
      positionGeodetic = geodeticToPosition ext (outPositionGeodetic bp),
      positionEci = eciToCartesian (outPositionEci bp),
      velocityEci = eciToCartesian (outVelocityEci bp)\<rparr>"

subsection \<open>Invariants of the loop\<close>

text \<open>
  The body of the loop over the satellites, for the Beacon position, velocity and
  geodetic position that the engine derives from one propagation result.
\<close>

abbreviation (input) iterOf where
  "iterOf ext config bp \<equiv>
     iridiumIteration ext config (eciToCartesian (outPositionEci bp))
       (eciToCartesian (outVelocityEci bp)) (geodeticToPosition ext (outPositionGeodetic bp))"

text \<open>
  The log of active links is the active-link set taken at each entry of the Beacon
  track, and every entry of the track is an instant at which the Beacon propagated.
\<close>

definition linksLogInv ::
  "'r Externals \<Rightarrow> SimulationConfig \<Rightarrow> 'r \<Rightarrow> 'r IridiumSat list \<Rightarrow> LoopState \<Rightarrow> bool" where
  "linksLogInv ext config b sats st =
     (activeLinksLog st = map (\<lambda>p. activeLinkIds ext config b sats (timestamp p)) (beaconTrack st)
      \<and> (\<forall>p \<in> set (beaconTrack st). propagateSatellite ext b (timestamp p) \<noteq> None))"

text \<open>
  The handshake log is the expected log over the timestamps of the Beacon track, the
  set of previously connected satellites is the active-link set of the last entry of the
  track, and the handshake counter is the length of the log.
\<close>

definition handshakeInv ::
  "'r Externals \<Rightarrow> SimulationConfig \<Rightarrow> 'r \<Rightarrow> 'r IridiumSat list \<Rightarrow> LoopState \<Rightarrow> bool" where
  "handshakeInv ext config b sats st =
     (handshakeLog st
        = expectedHandshakeLog ext config b sats {} (map timestamp (beaconTrack st))
      \<and> previousConnectedIridiumSatIds st
        = lastActive ext config b sats {} (map timestamp (beaconTrack st))
      \<and> totalHandshakes st = length (handshakeLog st))"

text \<open>Every blackout period lasts its end minus its start, in seconds.\<close>

definition blackoutPeriodsValid :: "BlackoutPeriod list \<Rightarrow> bool" where
  "blackoutPeriodsValid ps =
     list_all (\<lambda>p. duration p = real_of_int (endTime p - startTime p) / 1000) ps"

text \<open>
  The state of a run that has never had an active link, after \<open>k\<close> steps of \<open>s\<close>
  milliseconds: no handshake, no closed blackout, and a blackout open since the instant
  \<open>startDate + k0 s\<close> once that instant has been visited.
\<close>

definition quietInv ::
  "int \<Rightarrow> int \<Rightarrow> int \<Rightarrow> int \<Rightarrow> LoopState \<Rightarrow> bool" where
  "quietInv startDate endDate s k0 st =
     (\<exists>k. 0 \<le> k \<and> currentTime st = startDate + k * s
          \<and> (k = 0 \<or> startDate + (k - 1) * s \<le> endDate)
          \<and> handshakeLog st = [] \<and> totalHandshakes st = 0 \<and> blackoutPeriods st = []
          \<and> previousConnectedIridiumSatIds st = {}
          \<and> currentBlackout st = (if k \<le> k0 then None else Some (startDate + k0 * s)))"

subsection \<open>A small constellation for concrete runs\<close>

text \<open>
  The calendar of the host language: the civil date (year, month from 1 to 12, day) of a
  number of days since 1 January 1970 in the proleptic Gregorian calendar, and back.
\<close>

record CivilDate =
  civilYear :: int
  civilMonth :: int
  civilDay :: int

definition civilFromDays :: "int \<Rightarrow> CivilDate" where
  "civilFromDays days =
     (let z = days + 719468;
          era = z div 146097;
          doe = z mod 146097;
          yoe = (doe - doe div 1460 + doe div 36524 - doe div 146096) div 365;
          y = yoe + era * 400;
          doy = doe - (365 * yoe + yoe div 4 - yoe div 100);
          mp = (5 * doy + 2) div 153;
          d = doy - (153 * mp + 2) div 5 + 1;
          m = (if mp < 10 then mp + 3 else mp - 9)
      in \<lparr>civilYear = (if m \<le> 2 then y + 1 else y), civilMonth = m, civilDay = d\<rparr>)"

definition daysFromCivil :: "int \<Rightarrow> int \<Rightarrow> int \<Rightarrow> int" where
  "daysFromCivil year m d =
     (let y = (if m \<le> 2 then year - 1 else year);
          era = y div 400;
          yoe = y mod 400;
          doy = (153 * (if m > 2 then m - 3 else m + 9) + 2) div 5 + d - 1;
          doe = yoe * 365 + yoe div 4 - yoe div 100 + doy
      in era * 146097 + doe - 719468)"

definition msPerDay :: int where
  "msPerDay = 86400000"

text \<open>
  Externals over records that are strings: a record is the first seven characters of
  line 1. The dates are those of the calendar, the angle conversions those of the
  library (\<open>radiansLong\<close> throws outside \<open>[-180, 180]\<close>), and every number prints as \<open>0\<close>.
  The runs start on 10 April 2000 at 12:00 UTC, \<open>demoStart\<close>. The Beacon stays at
  \<open>(0, 0, 7000)\<close>; it fails to propagate at \<open>demoStart + 1200000\<close> and has an infinite
  coordinate at \<open>demoStart + 600000\<close>, an instant that the runs below do not visit. The
  first Iridium satellite stays at \<open>(0, 0, 7500)\<close>, right above the Beacon, and has a NaN
  coordinate at \<open>demoStart + 3600000\<close>; every other satellite stays at \<open>(0, 0, -7500)\<close>,
  behind the Earth.
\<close>

definition demoStart :: int where
  "demoStart = 955368000000"

definition demoVelocity :: NumberVector where
  "demoVelocity = finiteVector \<lparr>cx = 7, cy = 0, cz = 0\<rparr>"

definition demoPropagate :: "string \<Rightarrow> int \<Rightarrow> PropagateResult" where
  "demoPropagate satrec date =
     (if satrec = ''1 99990'' then
        (if date = demoStart + 1200000 then PropagateFalse
         else if date = demoStart + 600000 then
           PositionAndVelocity (PositionVec \<lparr>nx = PlusInfinity, ny = Finite 0, nz = Finite 7000\<rparr>)
             (Some demoVelocity)
         else PositionAndVelocity (PositionVec (finiteVector \<lparr>cx = 0, cy = 0, cz = 7000\<rparr>))
                (Some demoVelocity))
      else if satrec = ''1 24792'' then
        (if date = demoStart + 3600000 then
           PositionAndVelocity (PositionVec \<lparr>nx = NaN, ny = Finite 0, nz = Finite 7500\<rparr>)
             (Some demoVelocity)
         else PositionAndVelocity (PositionVec (finiteVector \<lparr>cx = 0, cy = 0, cz = 7500\<rparr>))
                (Some demoVelocity))
      else PositionAndVelocity (PositionVec (finiteVector \<lparr>cx = 0, cy = 0, cz = - 7500\<rparr>))
             (Some demoVelocity))"

definition demoTLE1 :: TLE where
  "demoTLE1 =
     \<lparr>name = ''IRIDIUM 1'',
      line1 = ''1 24792U 97020A   24150.50000000  .00000000  00000-0  00000-0 0  9999'',
      line2 = ''2 24792  86.4000   0.0000 0001000   0.0000   0.0000 14.34160000  00006''\<rparr>"

definition demoTLE2 :: TLE where
  "demoTLE2 =
     \<lparr>name = ''IRIDIUM 2'',
      line1 = ''1 24793U 97020B   24150.50000000  .00000000  00000-0  00000-0 0  9999'',
      line2 = ''2 24793  86.4000 180.0000 0001000   0.0000   0.0000 14.34160000  00006''\<rparr>"

definition demoExternals :: "string Externals" where
  "demoExternals =
     \<lparr>twoline2satrec = (\<lambda>l1 l2. TwolineSatrec (take 7 l1)),
      satrecError = (\<lambda>satrec. 0),
      propagate = demoPropagate,
      eciToGeodetic = (\<lambda>p t. Some \<lparr>latitudeRad = 0, longitudeRad = 0, height = 0\<rparr>),
      degreesLat = (\<lambda>v. v * (180 / pi)),
      degreesLong = (\<lambda>v. v * (180 / pi)),
      radiansLong = (\<lambda>d. if d < - 180 \<or> 180 < d then None else Some (d * (pi / 180))),
      fetchIridiumTLEs =
        (\<lambda>sources. case sources of
                      Some [IRIDIUM_NEXT] \<Rightarrow> [demoTLE2]
                    | _ \<Rightarrow> [demoTLE1, demoTLE2]),
      toFixed = (\<lambda>v digits. ''0''),
      getUTCFullYear = (\<lambda>t. civilYear (civilFromDays (t div msPerDay))),
      getUTCMonth = (\<lambda>t. civilMonth (civilFromDays (t div msPerDay)) - 1),
      getUTCDate = (\<lambda>t. civilDay (civilFromDays (t div msPerDay))),
      getUTCHours = (\<lambda>t. t mod msPerDay div 3600000),
      getUTCMinutes = (\<lambda>t. t mod 3600000 div 60000),
      getUTCSeconds = (\<lambda>t. t mod 60000 div 1000),
      getUTCMilliseconds = (\<lambda>t. t mod 1000),
      dateUTCJanuaryFirst = (\<lambda>year. daysFromCivil year 1 1 * msPerDay)\<rparr>"

text \<open>One hour in steps of twenty minutes, one-way mode, both satellites.\<close>

definition demoConfig :: SimulationConfig where
  "demoConfig =
     \<lparr>beaconParams = NonPolar 550 53 None,
      iridiumFovDeg = 62,
      beaconFovDeg = 62,
      simulationDurationHours = 1,
      simulationTimeStepSec = 1200,
      iridiumDatasetSources = None,
      handshakeMode = OneWay,
      startTimeISO = None\<rparr>"

text \<open>One hour in steps of thirty minutes, with only the satellite behind the Earth.\<close>

definition quietConfig :: SimulationConfig where
  "quietConfig =
     \<lparr>beaconParams = NonPolar 550 53 None,
      iridiumFovDeg = 1,
      beaconFovDeg = 62,
      simulationDurationHours = 1,
      simulationTimeStepSec = 1800,
      iridiumDatasetSources = Some [IRIDIUM_NEXT],
      handshakeMode = OneWay,
      startTimeISO = None\<rparr>"

text \<open>The two satellites that the demonstration externals initialize from their TLEs.\<close>

definition demoSat1 :: "string IridiumSat" where
  "demoSat1 = \<lparr>satId = ''IRIDIUM 1'', satRec = ''1 24792''\<rparr>"

definition demoSat2 :: "string IridiumSat" where
  "demoSat2 = \<lparr>satId = ''IRIDIUM 2'', satRec = ''1 24793''\<rparr>"

text \<open>The handshake of the first satellite at the start of the run.\<close>

definition demoHandshake :: Handshake where
  "demoHandshake =
     \<lparr>handshakeTimestamp = demoStart, iridiumSatelliteId = ''IRIDIUM 1'',
      beaconPosition = \<lparr>latitude = 0, longitude = 0, altitude = 0\<rparr>,
      iridiumPosition = \<lparr>latitude = 0, longitude = 0, altitude = 0\<rparr>\<rparr>"

text \<open>
  The run of \<open>demoConfig\<close> from \<open>demoStart\<close> visits four instants, the run of \<open>quietConfig\<close>
  three; their final loop states and results.
\<close>

definition demoFinalState :: LoopState where
  "demoFinalState =
     simulationStep demoExternals demoConfig ''1 99990'' [demoSat1, demoSat2]
       (simulationStep demoExternals demoConfig ''1 99990'' [demoSat1, demoSat2]
         (simulationStep demoExternals demoConfig ''1 99990'' [demoSat1, demoSat2]
           (simulationStep demoExternals demoConfig ''1 99990'' [demoSat1, demoSat2]
             (initialLoopState [demoSat1, demoSat2] demoStart))))"

definition demoResults :: SimulationResults where
  "demoResults = calculateFinalResults (finalizeBlackout demoFinalState)"

definition quietFinalState :: LoopState where
  "quietFinalState =
     simulationStep demoExternals quietConfig ''1 99990'' [demoSat2]
       (simulationStep demoExternals quietConfig ''1 99990'' [demoSat2]
         (simulationStep demoExternals quietConfig ''1 99990'' [demoSat2]
           (initialLoopState [demoSat2] demoStart)))"

definition quietResults :: SimulationResults where
  "quietResults = calculateFinalResults (finalizeBlackout quietFinalState)"

text \<open>The state of the first run after its first step: the Beacon fails at the next one.\<close>

definition demoStateAfterFirstStep :: LoopState where
  "demoStateAfterFirstStep =
     simulationStep demoExternals demoConfig ''1 99990'' [demoSat1, demoSat2]
       (initialLoopState [demoSat1, demoSat2] demoStart)"



section \<open>Properties of the geometry kernel\<close>

lemma los_unfold:
  "isLineOfSightClear p1 p2 c r =
     (if quadDiscriminant p1 p2 c r < 0 then True
      else if quadA p1 p2 = 0 then True
      else if onSegment (param1 p1 p2 c r) \<or> onSegment (param2 p1 p2 c r)
           then endpointVerdict (quadC p1 c r) (quadC p2 c r)
           else True)"
  unfolding isLineOfSightClear_def Let_def quadDiscriminant_def param1_def param2_def
    quadA_def quadB_def quadC_def onSegment_def endpointVerdict_def dotProduct_def subtract_def
  by simp

lemma quadA_zero_iff: "quadA p1 p2 = 0 \<longleftrightarrow> p1 = p2"
proof -
  have "quadA p1 p2 = (cx p2 - cx p1)\<^sup>2 + (cy p2 - cy p1)\<^sup>2 + (cz p2 - cz p1)\<^sup>2"
    by (simp add: quadA_def dotProduct_def subtract_def power2_eq_square)
  then have "quadA p1 p2 = 0 \<longleftrightarrow> cx p2 = cx p1 \<and> cy p2 = cy p1 \<and> cz p2 = cz p1"
    by (simp add: sum_power2_eq_zero_iff add_nonneg_eq_0_iff)
  then show ?thesis by auto
qed

text \<open>
  The quadratic is the equation of the sphere along the line: its value at \<open>t\<close> is the
  squared distance of the point at \<open>t\<close> to the center minus the squared radius, and for
  two distinct points its roots are the two intersection parameters.
\<close>

lemma segment_sphere_quadratic:
  "quadC (pointOnLine p1 p2 t) c r = quadA p1 p2 * t\<^sup>2 + quadB p1 p2 c * t + quadC p1 c r"
  by (simp add: quadA_def quadB_def quadC_def pointOnLine_def addVec_def scaleVec_def
      subtract_def dotProduct_def power2_eq_square algebra_simps)

lemma quadratic_roots:
  fixes a b c t :: real
  assumes "a \<noteq> 0"
  shows "a * t\<^sup>2 + b * t + c = 0 \<longleftrightarrow>
           0 \<le> b * b - 4 * a * c
           \<and> (t = (- b - sqrt (b * b - 4 * a * c)) / (2 * a)
              \<or> t = (- b + sqrt (b * b - 4 * a * c)) / (2 * a))"
proof -
  let ?D = "b * b - 4 * a * c"
  have sq: "4 * a * (a * t\<^sup>2 + b * t + c) = (2 * a * t + b)\<^sup>2 - ?D"
    by (simp add: power2_eq_square algebra_simps)
  have iff: "a * t\<^sup>2 + b * t + c = 0 \<longleftrightarrow> (2 * a * t + b)\<^sup>2 = ?D"
    using sq assms by (metis diff_eq_eq add.left_neutral mult_eq_0_iff zero_neq_numeral)
  show ?thesis
  proof
    assume "a * t\<^sup>2 + b * t + c = 0"
    with iff have e: "(2 * a * t + b)\<^sup>2 = ?D" by simp
    then have nn: "0 \<le> ?D" by (metis zero_le_power2)
    then have "(2 * a * t + b)\<^sup>2 = (sqrt ?D)\<^sup>2" using e by simp
    then have "2 * a * t + b = sqrt ?D \<or> 2 * a * t + b = - sqrt ?D"
      by (simp only: power2_eq_iff)
    then have "t = (- b + sqrt ?D) / (2 * a) \<or> t = (- b - sqrt ?D) / (2 * a)"
      using assms by (auto simp: field_simps)
    with nn show "0 \<le> ?D \<and> (t = (- b - sqrt ?D) / (2 * a) \<or> t = (- b + sqrt ?D) / (2 * a))"
      by blast
  next
    assume r: "0 \<le> ?D \<and> (t = (- b - sqrt ?D) / (2 * a) \<or> t = (- b + sqrt ?D) / (2 * a))"
    then have "2 * a * t + b = - sqrt ?D \<or> 2 * a * t + b = sqrt ?D"
      using assms by (auto simp: field_simps)
    then have "(2 * a * t + b)\<^sup>2 = (sqrt ?D)\<^sup>2" by auto
    then have "(2 * a * t + b)\<^sup>2 = ?D" using r by simp
    with iff show "a * t\<^sup>2 + b * t + c = 0" by simp
  qed
qed

lemma intersection_parameters:
  assumes "p1 \<noteq> p2"
  shows "quadC (pointOnLine p1 p2 t) c r = 0 \<longleftrightarrow>
           0 \<le> quadDiscriminant p1 p2 c r \<and> (t = param1 p1 p2 c r \<or> t = param2 p1 p2 c r)"
proof -
  have a: "quadA p1 p2 \<noteq> 0" using assms by (simp add: quadA_zero_iff)
  show ?thesis
    unfolding segment_sphere_quadratic quadDiscriminant_def param1_def param2_def
    by (rule quadratic_roots[OF a])
qed

lemma magnitude_less_iff:
  assumes "0 \<le> r"
  shows "magnitude (subtract p c) < r \<longleftrightarrow> quadC p c r < 0"
proof -
  have "magnitude (subtract p c) < r
        \<longleftrightarrow> sqrt (dotProduct (subtract p c) (subtract p c)) < sqrt (r * r)"
    using assms by (simp add: magnitude_def dotProduct_def)
  then show ?thesis by (simp add: quadC_def del: real_sqrt_abs2 real_sqrt_mult_self)
qed

lemma magnitude_greater_iff:
  assumes "0 \<le> r"
  shows "magnitude (subtract p c) > r \<longleftrightarrow> quadC p c r > 0"
proof -
  have "magnitude (subtract p c) > r
        \<longleftrightarrow> sqrt (dotProduct (subtract p c) (subtract p c)) > sqrt (r * r)"
    using assms by (simp add: magnitude_def dotProduct_def)
  then show ?thesis by (simp add: quadC_def del: real_sqrt_abs2 real_sqrt_mult_self)
qed

lemma endpointVerdict_geometric:
  assumes "0 \<le> r"
  shows "endpointVerdict (quadC p1 c r) (quadC p2 c r) =
     (if (strictlyInside p1 c r \<and> strictlyOutside p2 c r)
            \<or> (strictlyOutside p1 c r \<and> strictlyInside p2 c r) then False
      else if strictlyOutside p1 c r \<and> strictlyOutside p2 c r then False
      else if insideOrOnSurface p1 c r \<and> insideOrOnSurface p2 c r then True
      else False)"
proof -
  have le: "insideOrOnSurface p c r \<longleftrightarrow> \<not> strictlyOutside p c r" for p
    by (auto simp: insideOrOnSurface_def strictlyOutside_def)
  show ?thesis
    unfolding le endpointVerdict_def strictlyInside_def strictlyOutside_def
      magnitude_less_iff[OF assms] magnitude_greater_iff[OF assms]
    by auto
qed

lemma sqrt_64: "sqrt 64 = 8"
  by (rule real_sqrt_unique) simp_all

lemma los_blocked_example:
  "\<not> isLineOfSightClear \<lparr>cx = 0, cy = 0, cz = 2\<rparr> \<lparr>cx = 0, cy = 0, cz = - 2\<rparr>
       \<lparr>cx = 0, cy = 0, cz = 0\<rparr> 1"
  by (simp add: los_unfold quadDiscriminant_def quadA_def quadB_def quadC_def param1_def
      param2_def onSegment_def endpointVerdict_def dotProduct_def subtract_def sqrt_64)

text \<open>
  Claim C1. For two distinct points and a sphere (a center and a radius that is not
  negative), \<open>isLineOfSightClear\<close> follows the decision table of the specification: clear
  when the discriminant of the segment-sphere quadratic is negative; clear when both
  intersection parameters lie outside \<open>[0, 1]\<close>; otherwise blocked when one endpoint is
  strictly inside the sphere and the other strictly outside, blocked when both are
  strictly outside, clear when both are inside or on the surface, and blocked in the
  remaining case.
\<close>

theorem isLineOfSightClear_decision_table:
  assumes "p1 \<noteq> p2" and "0 \<le> earthRadius"
  shows "isLineOfSightClear p1 p2 earthCenter earthRadius
         = occultationTable p1 p2 earthCenter earthRadius"
proof -
  have "quadA p1 p2 \<noteq> 0" using assms(1) by (simp add: quadA_zero_iff)
  then show ?thesis
    unfolding los_unfold occultationTable_def endpointVerdict_geometric[OF assms(2)]
    by simp
qed

theorem isLineOfSightClear_decision_table_witness:
  "\<lparr>cx = 0, cy = 0, cz = 2\<rparr> \<noteq> \<lparr>cx = 0, cy = 0, cz = - 2\<rparr> \<and> (0::real) \<le> 1
   \<and> occultationTable \<lparr>cx = 0, cy = 0, cz = 2\<rparr> \<lparr>cx = 0, cy = 0, cz = - 2\<rparr>
        \<lparr>cx = 0, cy = 0, cz = 0\<rparr> 1 = False"
proof -
  have d: "\<lparr>cx = 0, cy = 0, cz = 2\<rparr> \<noteq> \<lparr>cx = 0, cy = 0, cz = - (2::real)\<rparr>" by simp
  have r: "(0::real) \<le> 1" by simp
  show ?thesis
    using isLineOfSightClear_decision_table[OF d r, of "\<lparr>cx = 0, cy = 0, cz = 0\<rparr>"]
      los_blocked_example d
    by simp
qed










lemma magnitude_axis_z: "magnitude \<lparr>cx = 0, cy = 0, cz = t\<rparr> = \<bar>t\<bar>"
  by (simp add: magnitude_def)

lemma normalizeVec_unit:
  "1 / 10 ^ 9 \<le> magnitude v \<Longrightarrow> normalizeVec v = unitVector v"
  by (simp add: normalizeVec_def unitVector_def scaleVec_def Let_def)

text \<open>
  Claim C6, as amended. For every cone and every target whose distance from the cone tip
  is at least \<open>10\<^sup>-\<^sup>9\<close>, \<open>isPointInCone\<close> is true exactly when the arc cosine of the clamped
  dot product of the cone axis with the unit vector from the tip to the target is at
  most the half angle; a measured angle equal to the half angle is in the cone.
\<close>

theorem isPointInCone_iff_measuredAngle:
  assumes "1 / 10 ^ 9 \<le> magnitude (subtract target (tip cone))"
  shows "isPointInCone target cone \<longleftrightarrow> measuredAngle target cone \<le> halfAngle cone"
  using normalizeVec_unit[OF assms]
  by (simp add: isPointInCone_def measuredAngle_def Let_def)

theorem isPointInCone_iff_measuredAngle_witness:
  "1 / 10 ^ 9 \<le> magnitude (subtract \<lparr>cx = 0, cy = 0, cz = 7000\<rparr>
       (tip \<lparr>tip = \<lparr>cx = 0, cy = 0, cz = 7500\<rparr>, axis = \<lparr>cx = 0, cy = 0, cz = - 1\<rparr>,
             halfAngle = 0, satelliteId = None\<rparr>))
   \<and> isPointInCone \<lparr>cx = 0, cy = 0, cz = 7000\<rparr>
        \<lparr>tip = \<lparr>cx = 0, cy = 0, cz = 7500\<rparr>, axis = \<lparr>cx = 0, cy = 0, cz = - 1\<rparr>,
         halfAngle = 0, satelliteId = None\<rparr>
   \<and> measuredAngle \<lparr>cx = 0, cy = 0, cz = 7000\<rparr>
        \<lparr>tip = \<lparr>cx = 0, cy = 0, cz = 7500\<rparr>, axis = \<lparr>cx = 0, cy = 0, cz = - 1\<rparr>,
         halfAngle = 0, satelliteId = None\<rparr> = 0"
proof -
  let ?T = "\<lparr>cx = 0, cy = 0, cz = 7000\<rparr>"
  let ?C = "\<lparr>tip = \<lparr>cx = 0, cy = 0, cz = 7500\<rparr>, axis = \<lparr>cx = 0, cy = 0, cz = - 1\<rparr>,
             halfAngle = 0, satelliteId = None\<rparr>"
  have h: "1 / 10 ^ 9 \<le> magnitude (subtract ?T (tip ?C))"
    by (simp add: subtract_def magnitude_axis_z)
  have m: "measuredAngle ?T ?C = 0"
    by (simp add: measuredAngle_def unitVector_def subtract_def magnitude_axis_z scaleVec_def
        dotProduct_def)
  from isPointInCone_iff_measuredAngle[OF h] m h show ?thesis by simp
qed

text \<open>
  The claim as first stated asks only for a unit axis and a target distinct from the tip.
  A target closer to the tip than \<open>10\<^sup>-\<^sup>9\<close> is normalized to the zero vector: on the axis,
  at distance \<open>10\<^sup>-\<^sup>1\<^sup>0\<close>, the measured angle is \<open>0\<close>, and the code answers as for the
  angle \<open>\<pi> / 2\<close>.
\<close>

theorem isPointInCone_near_tip_counterexample:
  "magnitude (axis \<lparr>tip = \<lparr>cx = 0, cy = 0, cz = 0\<rparr>, axis = \<lparr>cx = 0, cy = 0, cz = 1\<rparr>,
                    halfAngle = 1 / 2, satelliteId = None\<rparr>) = 1
   \<and> \<lparr>cx = 0, cy = 0, cz = 1 / 10 ^ 10\<rparr>
       \<noteq> tip \<lparr>tip = \<lparr>cx = 0, cy = 0, cz = 0\<rparr>, axis = \<lparr>cx = 0, cy = 0, cz = 1\<rparr>,
               halfAngle = 1 / 2, satelliteId = None\<rparr>
   \<and> \<not> isPointInCone \<lparr>cx = 0, cy = 0, cz = 1 / 10 ^ 10\<rparr>
         \<lparr>tip = \<lparr>cx = 0, cy = 0, cz = 0\<rparr>, axis = \<lparr>cx = 0, cy = 0, cz = 1\<rparr>,
          halfAngle = 1 / 2, satelliteId = None\<rparr>
   \<and> measuredAngle \<lparr>cx = 0, cy = 0, cz = 1 / 10 ^ 10\<rparr>
         \<lparr>tip = \<lparr>cx = 0, cy = 0, cz = 0\<rparr>, axis = \<lparr>cx = 0, cy = 0, cz = 1\<rparr>,
          halfAngle = 1 / 2, satelliteId = None\<rparr>
       \<le> halfAngle \<lparr>tip = \<lparr>cx = 0, cy = 0, cz = 0\<rparr>, axis = \<lparr>cx = 0, cy = 0, cz = 1\<rparr>,
                     halfAngle = 1 / 2, satelliteId = None\<rparr>"
proof -
  have p: "\<not> pi / 2 \<le> 1 / 2" using pi_ge_two by simp
  have a: "\<not> isPointInCone \<lparr>cx = 0, cy = 0, cz = 1 / 10 ^ 10\<rparr>
         \<lparr>tip = \<lparr>cx = 0, cy = 0, cz = 0\<rparr>, axis = \<lparr>cx = 0, cy = 0, cz = 1\<rparr>,
          halfAngle = 1 / 2, satelliteId = None\<rparr>"
    using p
    by (simp add: isPointInCone_def subtract_def normalizeVec_def magnitude_axis_z
        dotProduct_def Let_def)
  have b: "measuredAngle \<lparr>cx = 0, cy = 0, cz = 1 / 10 ^ 10\<rparr>
         \<lparr>tip = \<lparr>cx = 0, cy = 0, cz = 0\<rparr>, axis = \<lparr>cx = 0, cy = 0, cz = 1\<rparr>,
          halfAngle = 1 / 2, satelliteId = None\<rparr> = 0"
    by (simp add: measuredAngle_def unitVector_def subtract_def magnitude_axis_z scaleVec_def
        dotProduct_def)
  show ?thesis using a b by (simp add: magnitude_axis_z)
qed

subsection \<open>The kernel on the numbers of the host language, on finite numbers\<close>

text \<open>
  On vectors and cones with finite coordinates the kernel on numbers is the kernel on
  real numbers of the first section.
\<close>

lemma minus_Finite [simp]: "Finite x - Finite y = Finite (x - y)"
  by (simp add: minus_number_def)

lemma finiteVector_sel [simp]:
  "nx (finiteVector v) = Finite (cx v)" "ny (finiteVector v) = Finite (cy v)"
  "nz (finiteVector v) = Finite (cz v)"
  by (simp_all add: finiteVector_def)

lemma finiteCone_sel [simp]:
  "coneTip (finiteCone c) = finiteVector (tip c)" "coneAxis (finiteCone c) = finiteVector (axis c)"
  "coneHalfAngle (finiteCone c) = Finite (halfAngle c)"
  by (simp_all add: finiteCone_def)

lemma dotProductNum_finite [simp]:
  "dotProductNum (finiteVector v) (finiteVector w) = Finite (dotProduct v w)"
  by (simp add: dotProductNum_def dotProduct_def)

lemma magnitudeNum_finite [simp]: "magnitudeNum (finiteVector v) = Finite (magnitude v)"
proof -
  have "0 \<le> cx v * cx v + cy v * cy v + cz v * cz v" by simp
  then show ?thesis by (simp add: magnitudeNum_def magnitude_def not_less [symmetric] del: not_less)
qed

lemma normalizeNum_finite [simp]: "normalizeNum (finiteVector v) = finiteVector (normalizeVec v)"
proof (cases "magnitude v < 1 / 10 ^ 9")
  case True
  then show ?thesis
    by (simp add: normalizeNum_def normalizeVec_def Let_def; simp add: finiteVector_def)
next
  case False
  then have "magnitude v \<noteq> 0" by auto
  with False show ?thesis
    by (simp add: normalizeNum_def normalizeVec_def Let_def; simp add: finiteVector_def)
qed

lemma subtractNum_finite [simp]:
  "subtractNum (finiteVector v) (finiteVector w) = finiteVector (subtract v w)"
  by (simp add: subtractNum_def subtract_def finiteVector_def)

lemma scaleNum_finite [simp]:
  "scaleNum (finiteVector v) (Finite s) = finiteVector (scaleVec v s)"
  by (simp add: scaleNum_def scaleVec_def finiteVector_def)

lemma crossProductNum_finite [simp]:
  "crossProductNum (finiteVector v) (finiteVector w) = finiteVector (crossProduct v w)"
  by (simp add: crossProductNum_def crossProduct_def finiteVector_def)

lemma getNadirVectorNum_finite [simp]:
  "getNadirVectorNum (finiteVector v) = finiteVector (getNadirVector v)"
  by (simp add: getNadirVectorNum_def getNadirVector_def)

lemma isPointInConeNum_finite [simp]:
  "isPointInConeNum (finiteVector target) (finiteCone cone) = isPointInCone target cone"
  by (auto simp: isPointInConeNum_def isPointInCone_def Let_def mathMax_def mathMin_def
      max_def min_def)

lemma createIridiumConeNum_finite [simp]:
  "createIridiumConeNum (finiteVector p) (Finite h) sid = finiteCone (createIridiumCone p h sid)"
  by (simp add: createIridiumConeNum_def createIridiumCone_def finiteCone_def)

lemma horizonConesNum_finite [simp]:
  "horizonConesNum (finiteVector p) (finiteVector h) (Finite a) pre
   = map finiteCone (horizonCones p h a pre)"
  by (simp add: horizonConesNum_def horizonCones_def finiteCone_def Let_def)

lemma global_axes_finite:
  "\<lparr>nx = Finite 1, ny = Finite 0, nz = Finite 0\<rparr> = finiteVector \<lparr>cx = 1, cy = 0, cz = 0\<rparr>"
  "\<lparr>nx = Finite 0, ny = Finite 1, nz = Finite 0\<rparr> = finiteVector \<lparr>cx = 0, cy = 1, cz = 0\<rparr>"
  "\<lparr>nx = Finite 0, ny = Finite 0, nz = Finite 0\<rparr> = finiteVector \<lparr>cx = 0, cy = 0, cz = 0\<rparr>"
  by (simp_all add: finiteVector_def)

lemma createHorizonAlignedAntennaConesNum_finite [simp]:
  "createHorizonAlignedAntennaConesNum (finiteVector p) (finiteVector v) (Finite a) pre
   = map finiteCone (createHorizonAlignedAntennaCones p v a pre)"
  unfolding createHorizonAlignedAntennaConesNum_def createHorizonAlignedAntennaCones_def Let_def
    global_axes_finite
  by simp

lemma sum_squares_zero:
  fixes x y z :: real
  assumes "x * x + y * y + z * z = 0"
  shows "x = 0" and "y = 0" and "z = 0"
proof -
  have "x\<^sup>2 + y\<^sup>2 + z\<^sup>2 = 0" using assms by (simp add: power2_eq_square)
  then have "x\<^sup>2 = 0 \<and> y\<^sup>2 = 0 \<and> z\<^sup>2 = 0"
    by (smt (verit) zero_le_power2)
  then show "x = 0" and "y = 0" and "z = 0" by simp_all
qed

lemma isLineOfSightClearNum_finite [simp]:
  "isLineOfSightClearNum (finiteVector p1) (finiteVector p2) (finiteVector c) (Finite r)
   = isLineOfSightClear p1 p2 c r"
proof (cases "(cx p2 - cx p1) * (cx p2 - cx p1) + (cy p2 - cy p1) * (cy p2 - cy p1)
              + (cz p2 - cz p1) * (cz p2 - cz p1) = 0")
  case True
  note z = sum_squares_zero[OF True]
  show ?thesis
    by (simp add: isLineOfSightClearNum_def isLineOfSightClear_def Let_def z)
next
  case False
  then show ?thesis
    by (simp add: isLineOfSightClearNum_def isLineOfSightClear_def Let_def)
qed

lemma isLineOfSightClearDefaultNum_finite [simp]:
  "isLineOfSightClearDefaultNum (finiteVector p1) (finiteVector p2)
   = isLineOfSightClearDefault p1 p2"
  by (simp add: isLineOfSightClearDefaultNum_def isLineOfSightClearDefault_def
      global_axes_finite(3))

subsection \<open>Rounding to doubles\<close>












subsection \<open>The occultation test in double precision\<close>





section \<open>Properties of the Beacon orbit synthesizer\<close>

lemma length_formatStringPadded [simp]: "length (formatStringPadded str n c b) = n"
  by (auto simp: formatStringPadded_def padStart_def padEnd_def)

lemma length_formatAngleForTLE [simp]: "length (formatAngleForTLE ext a) = 8"
  by (simp add: formatAngleForTLE_def Let_def)

lemma length_formatMeanMotionForTLE [simp]: "length (formatMeanMotionForTLE ext m) = 11"
  by (simp add: formatMeanMotionForTLE_def Let_def)

lemma length_formatEpochDayForTLE [simp]: "length (formatEpochDayForTLE ext d) = 12"
  by (simp add: formatEpochDayForTLE_def)

lemma natToString_digit: "n < 10 \<Longrightarrow> natToString n = [char_of (48 + n)]"
  by (simp add: natToString.simps)

lemma length_checksum_digit [simp]: "length (intToString (int (calculateTLEChecksum line))) = 1"
proof -
  have "calculateTLEChecksum line < 10" by (simp add: calculateTLEChecksum_def)
  then show ?thesis by (simp add: intToString_def natToString_digit)
qed

lemma length_formatEccentricity_default [simp]:
  "length (formatEccentricityForTLE DEFAULT_ECCENTRICITY) = 7"
proof -
  have "jsRound (DEFAULT_ECCENTRICITY * 10 ^ 7) = 1"
    by (simp add: jsRound_def DEFAULT_ECCENTRICITY_def)
  then show ?thesis
    by (simp add: formatEccentricityForTLE_def intToString_def natToString_digit padStart_def)
qed

lemma length_intToString_0 [simp]: "length (intToString 0) = 1"
  by (simp add: intToString_def natToString_digit)

lemma length_tleLine1: "length (tleLine1 ext ep) = TLE_LINE_LENGTH"
  by (simp add: tleLine1_def Let_def TLE_LINE_LENGTH_def)

lemma length_tleLine2: "length (tleLine2 ext i r m) = TLE_LINE_LENGTH"
  by (simp add: tleLine2_def Let_def TLE_LINE_LENGTH_def)


text \<open>
  The position of the Sun is computed from the mean longitude and the mean anomaly of the
  Sun, both reduced to \<open>[0, 360)\<close>; it is there when \<open>radiansLong\<close> accepts these two
  angles and the obliquity.
\<close>

lemma getSunRaDec_None_iff:
  "getSunRaDec ext date = None \<longleftrightarrow>
     radiansLong ext
       (reduceDegrees (28046 / 100 + 9856474 / 10000000 * (getJulianDate ext date - 2451545)))
       = None
     \<or> radiansLong ext
         (reduceDegrees (357528 / 1000 + 9856003 / 10000000 * (getJulianDate ext date - 2451545)))
       = None
     \<or> radiansLong ext (1915 / 1000) = None
     \<or> radiansLong ext (20 / 1000) = None
     \<or> radiansLong ext (23439 / 1000 - 4 / 10000000 * (getJulianDate ext date - 2451545)) = None"
  unfolding getSunRaDec_def reduceDegrees_def Let_def
  by (auto split: option.splits)

subsection \<open>The calendar and the Sun of the concrete runs\<close>

lemma demo_civil:
  "civilFromDays 0 = \<lparr>civilYear = 1970, civilMonth = 1, civilDay = 1\<rparr>"
  "civilFromDays 11057 = \<lparr>civilYear = 2000, civilMonth = 4, civilDay = 10\<rparr>"
  by code_simp+

lemma demoExternals_date:
  "getUTCFullYear demoExternals t = civilYear (civilFromDays (t div msPerDay))"
  "getUTCMonth demoExternals t = civilMonth (civilFromDays (t div msPerDay)) - 1"
  "getUTCDate demoExternals t = civilDay (civilFromDays (t div msPerDay))"
  "getUTCHours demoExternals t = t mod msPerDay div 3600000"
  "getUTCMinutes demoExternals t = t mod 3600000 div 60000"
  "getUTCSeconds demoExternals t = t mod 60000 div 1000"
  "getUTCMilliseconds demoExternals t = t mod 1000"
  "radiansLong demoExternals d = (if d < - 180 \<or> 180 < d then None else Some (d * (pi / 180)))"
  by (simp_all add: demoExternals_def)

text \<open>The Julian dates of 1 January 1970, 0:00 UTC, and of 10 April 2000, 12:00 UTC.\<close>

lemma demo_getJulianDate:
  "getJulianDate demoExternals 0 = 24405875 / 10"
  "getJulianDate demoExternals demoStart = 2451645"
  by (simp_all add: getJulianDate_def demoExternals_date msPerDay_def demoStart_def demo_civil)

text \<open>
  On the first date the mean longitude of the Sun is \<open>280.2286145\<close> degrees, which
  \<open>radiansLong\<close> rejects; on the second it is \<open>19.02474\<close> degrees and the mean anomaly
  \<open>96.08803\<close> degrees.
\<close>

lemma demo_meanLongitude:
  "jsRemainder (28046 / 100 + 9856474 / 10000000 * (24405875 / 10 - 2451545)) 360 + 360
   = 2802286145 / 10000000"
  "jsRemainder (28046 / 100 + 9856474 / 10000000 * (2451645 - 2451545)) 360 = 1902474 / 100000"
  "jsRemainder (357528 / 1000 + 9856003 / 10000000 * (2451645 - 2451545)) 360 = 9608803 / 100000"
  by (simp_all add: jsRemainder_def truncateTowardZero_def)

lemma demo_getSunRaDec:
  "getSunRaDec demoExternals 0 = None"
  "getSunRaDec demoExternals demoStart \<noteq> None"
proof -
  show "getSunRaDec demoExternals 0 = None"
    unfolding getSunRaDec_def demo_getJulianDate
    by (simp add: jsRemainder_def truncateTowardZero_def demoExternals_date)
  show "getSunRaDec demoExternals demoStart \<noteq> None"
    unfolding getSunRaDec_def demo_getJulianDate
    by (simp add: jsRemainder_def truncateTowardZero_def demoExternals_date Let_def)
qed


section \<open>Properties of the simulation engine\<close>

subsection \<open>The loop over the Iridium satellites\<close>

lemma iridiumIteration_frame:
  "currentTime (iridiumIteration ext config p v g st isat) = currentTime st"
  "previousConnectedIridiumSatIds (iridiumIteration ext config p v g st isat)
     = previousConnectedIridiumSatIds st"
  "currentBlackout (iridiumIteration ext config p v g st isat) = currentBlackout st"
  "blackoutPeriods (iridiumIteration ext config p v g st isat) = blackoutPeriods st"
  "beaconTrack (iridiumIteration ext config p v g st isat) = beaconTrack st"
  "activeLinksLog (iridiumIteration ext config p v g st isat) = activeLinksLog st"
  by (simp_all add: iridiumIteration_def Let_def split: option.splits)

lemma iridiumIteration_effect:
  assumes "propagateSatellite ext beaconSatRec (currentTime st) = Some bp"
  shows "currentConnectedIridiumSatIdsThisStep (iterOf ext config bp st isat)
           = currentConnectedIridiumSatIdsThisStep st
             \<union> (if linkActive ext config beaconSatRec (currentTime st) isat then {satId isat} else {})"
    and "beaconIsInCommunicationThisStep (iterOf ext config bp st isat)
           = (beaconIsInCommunicationThisStep st
              \<or> linkActive ext config beaconSatRec (currentTime st) isat)"
    and "handshakeLog (iterOf ext config bp st isat)
           = handshakeLog st @
             (if linkActive ext config beaconSatRec (currentTime st) isat
                 \<and> satId isat \<notin> previousConnectedIridiumSatIds st
              then handshakeRecord ext bp (currentTime st) isat else [])"
    and "totalHandshakes (iterOf ext config bp st isat)
           = totalHandshakes st +
             length (if linkActive ext config beaconSatRec (currentTime st) isat
                 \<and> satId isat \<notin> previousConnectedIridiumSatIds st
              then handshakeRecord ext bp (currentTime st) isat else [])"
  using assms
  by (simp_all add: iridiumIteration_def linkActive_def pairActive_def handshakeRecord_def Let_def
      split: option.splits)

lemma foldl_iridiumIteration_frame:
  "currentTime (foldl (iridiumIteration ext config p v g) st sats) = currentTime st"
  "previousConnectedIridiumSatIds (foldl (iridiumIteration ext config p v g) st sats)
     = previousConnectedIridiumSatIds st"
  "currentBlackout (foldl (iridiumIteration ext config p v g) st sats) = currentBlackout st"
  "blackoutPeriods (foldl (iridiumIteration ext config p v g) st sats) = blackoutPeriods st"
  "beaconTrack (foldl (iridiumIteration ext config p v g) st sats) = beaconTrack st"
  "activeLinksLog (foldl (iridiumIteration ext config p v g) st sats) = activeLinksLog st"
  by (induction sats arbitrary: st; simp add: iridiumIteration_frame)+

lemma activeLinkIds_Nil [simp]: "activeLinkIds ext config b [] t = {}"
  by (simp add: activeLinkIds_def)

lemma activeLinkIds_Cons:
  "activeLinkIds ext config b (isat # sats) t
     = (if linkActive ext config b t isat then {satId isat} else {})
       \<union> activeLinkIds ext config b sats t"
  by (simp add: activeLinkIds_def)

lemma stepHandshakes_Cons:
  "propagateSatellite ext b t = Some bp \<Longrightarrow>
   stepHandshakes ext config b (isat # sats) prev t
     = (if linkActive ext config b t isat \<and> satId isat \<notin> prev
        then handshakeRecord ext bp t isat else [])
       @ stepHandshakes ext config b sats prev t"
  by (simp add: stepHandshakes_def)

lemma stepHandshakes_Nil [simp]: "stepHandshakes ext config b [] prev t = []"
  by (simp add: stepHandshakes_def split: option.splits)

lemma foldl_iridiumIteration_connected:
  assumes "propagateSatellite ext beaconSatRec (currentTime st) = Some bp"
  shows "currentConnectedIridiumSatIdsThisStep (foldl (iterOf ext config bp) st sats)
           = currentConnectedIridiumSatIdsThisStep st
             \<union> activeLinkIds ext config beaconSatRec sats (currentTime st)"
  using assms
proof (induction sats arbitrary: st)
  case Nil
  show ?case by simp
next
  case (Cons isat sats)
  let ?st' = "iterOf ext config bp st isat"
  have t: "currentTime ?st' = currentTime st" by (rule iridiumIteration_frame)
  have p: "propagateSatellite ext beaconSatRec (currentTime ?st') = Some bp"
    using Cons.prems t by simp
  show ?case
    using Cons.IH[OF p] iridiumIteration_effect(1)[OF Cons.prems, of config isat]
    by (simp add: t activeLinkIds_Cons Un_assoc)
qed

lemma foldl_iridiumIteration_inCommunication:
  assumes "propagateSatellite ext beaconSatRec (currentTime st) = Some bp"
  shows "beaconIsInCommunicationThisStep (foldl (iterOf ext config bp) st sats)
           = (beaconIsInCommunicationThisStep st
              \<or> activeLinkIds ext config beaconSatRec sats (currentTime st) \<noteq> {})"
  using assms
proof (induction sats arbitrary: st)
  case Nil
  show ?case by simp
next
  case (Cons isat sats)
  let ?st' = "iterOf ext config bp st isat"
  have t: "currentTime ?st' = currentTime st" by (rule iridiumIteration_frame)
  have p: "propagateSatellite ext beaconSatRec (currentTime ?st') = Some bp"
    using Cons.prems t by simp
  show ?case
    using Cons.IH[OF p] iridiumIteration_effect(2)[OF Cons.prems, of config isat]
    by (simp add: t activeLinkIds_Cons)
qed

lemma foldl_iridiumIteration_handshakeLog:
  assumes "propagateSatellite ext beaconSatRec (currentTime st) = Some bp"
  shows "handshakeLog (foldl (iterOf ext config bp) st sats)
           = handshakeLog st @
             stepHandshakes ext config beaconSatRec sats (previousConnectedIridiumSatIds st)
               (currentTime st)"
  using assms
proof (induction sats arbitrary: st)
  case Nil
  show ?case by simp
next
  case (Cons isat sats)
  let ?st' = "iterOf ext config bp st isat"
  have t: "currentTime ?st' = currentTime st" by (rule iridiumIteration_frame)
  have q: "previousConnectedIridiumSatIds ?st' = previousConnectedIridiumSatIds st"
    by (rule iridiumIteration_frame)
  have p: "propagateSatellite ext beaconSatRec (currentTime ?st') = Some bp"
    using Cons.prems t by simp
  show ?case
    using Cons.IH[OF p] iridiumIteration_effect(3)[OF Cons.prems, of config isat]
    by (simp add: t q stepHandshakes_Cons[OF Cons.prems])
qed

lemma foldl_iridiumIteration_totalHandshakes:
  assumes "propagateSatellite ext beaconSatRec (currentTime st) = Some bp"
  shows "totalHandshakes (foldl (iterOf ext config bp) st sats)
           = totalHandshakes st +
             length (stepHandshakes ext config beaconSatRec sats
                       (previousConnectedIridiumSatIds st) (currentTime st))"
  using assms
proof (induction sats arbitrary: st)
  case Nil
  show ?case by simp
next
  case (Cons isat sats)
  let ?st' = "iterOf ext config bp st isat"
  have t: "currentTime ?st' = currentTime st" by (rule iridiumIteration_frame)
  have q: "previousConnectedIridiumSatIds ?st' = previousConnectedIridiumSatIds st"
    by (rule iridiumIteration_frame)
  have p: "propagateSatellite ext beaconSatRec (currentTime ?st') = Some bp"
    using Cons.prems t by simp
  show ?case
    using Cons.IH[OF p] iridiumIteration_effect(4)[OF Cons.prems, of config isat]
    by (simp add: t q stepHandshakes_Cons[OF Cons.prems])
qed

subsection \<open>One step of the timeline\<close>

lemma simulationStep_skip:
  "propagateSatellite ext b (currentTime st) = None \<Longrightarrow>
   simulationStep ext config b sats st = st\<lparr>currentTime := advanceTime config (currentTime st)\<rparr>"
  by (simp add: simulationStep_def)

lemma updateBlackout_frame:
  "currentTime (updateBlackout st) = currentTime st"
  "previousConnectedIridiumSatIds (updateBlackout st) = previousConnectedIridiumSatIds st"
  "beaconTrack (updateBlackout st) = beaconTrack st"
  "activeLinksLog (updateBlackout st) = activeLinksLog st"
  "handshakeLog (updateBlackout st) = handshakeLog st"
  "totalHandshakes (updateBlackout st) = totalHandshakes st"
  "iridiumTracks (updateBlackout st) = iridiumTracks st"
  by (simp_all add: updateBlackout_def Let_def split: option.splits)

lemma simulationStep_currentTime:
  "currentTime (simulationStep ext config b sats st) = advanceTime config (currentTime st)"
  by (simp add: simulationStep_def Let_def updateBlackout_frame foldl_iridiumIteration_frame
      split: option.splits)

lemma simulationStep_evaluated:
  assumes "propagateSatellite ext b (currentTime st) = Some bp"
  shows "beaconTrack (simulationStep ext config b sats st)
           = beaconTrack st @ [beaconTrackEntry ext bp (currentTime st)]"
    and "activeLinksLog (simulationStep ext config b sats st)
           = activeLinksLog st @ [activeLinkIds ext config b sats (currentTime st)]"
    and "previousConnectedIridiumSatIds (simulationStep ext config b sats st)
           = activeLinkIds ext config b sats (currentTime st)"
    and "handshakeLog (simulationStep ext config b sats st)
           = handshakeLog st @
             stepHandshakes ext config b sats (previousConnectedIridiumSatIds st) (currentTime st)"
    and "totalHandshakes (simulationStep ext config b sats st)
           = totalHandshakes st +
             length (stepHandshakes ext config b sats (previousConnectedIridiumSatIds st)
                       (currentTime st))"
proof -
  let ?st1 = "st\<lparr>beaconTrack := beaconTrack st @ [beaconTrackEntry ext bp (currentTime st)],
                  currentConnectedIridiumSatIdsThisStep := {},
                  beaconIsInCommunicationThisStep := False\<rparr>"
  have p1: "propagateSatellite ext b (currentTime ?st1) = Some bp" using assms by simp
  note f = foldl_iridiumIteration_connected[OF p1, of config sats]
    foldl_iridiumIteration_handshakeLog[OF p1, of config sats]
    foldl_iridiumIteration_totalHandshakes[OF p1, of config sats]
  show "beaconTrack (simulationStep ext config b sats st)
           = beaconTrack st @ [beaconTrackEntry ext bp (currentTime st)]"
    using assms
    by (simp add: simulationStep_def Let_def updateBlackout_frame foldl_iridiumIteration_frame
        beaconTrackEntry_def)
  show "activeLinksLog (simulationStep ext config b sats st)
           = activeLinksLog st @ [activeLinkIds ext config b sats (currentTime st)]"
    using assms f
    by (simp add: simulationStep_def Let_def updateBlackout_frame foldl_iridiumIteration_frame
        beaconTrackEntry_def)
  show "previousConnectedIridiumSatIds (simulationStep ext config b sats st)
           = activeLinkIds ext config b sats (currentTime st)"
    using assms f
    by (simp add: simulationStep_def Let_def updateBlackout_frame foldl_iridiumIteration_frame
        beaconTrackEntry_def)
  show "handshakeLog (simulationStep ext config b sats st)
           = handshakeLog st @
             stepHandshakes ext config b sats (previousConnectedIridiumSatIds st) (currentTime st)"
    using assms f
    by (simp add: simulationStep_def Let_def updateBlackout_frame foldl_iridiumIteration_frame
        beaconTrackEntry_def)
  show "totalHandshakes (simulationStep ext config b sats st)
           = totalHandshakes st +
             length (stepHandshakes ext config b sats (previousConnectedIridiumSatIds st)
                       (currentTime st))"
    using assms f
    by (simp add: simulationStep_def Let_def updateBlackout_frame foldl_iridiumIteration_frame
        beaconTrackEntry_def)
qed

lemma stepHandshakes_no_beacon:
  "propagateSatellite ext b t = None \<Longrightarrow> stepHandshakes ext config b sats prev t = []"
  by (simp add: stepHandshakes_def)

lemma activeLinkIds_no_beacon:
  "propagateSatellite ext b t = None \<Longrightarrow> activeLinkIds ext config b sats t = {}"
  by (simp add: activeLinkIds_def linkActive_def)

lemma simulationStep_handshakeLog:
  "handshakeLog (simulationStep ext config b sats st)
     = handshakeLog st @
       stepHandshakes ext config b sats (previousConnectedIridiumSatIds st) (currentTime st)"
  by (cases "propagateSatellite ext b (currentTime st)")
     (simp_all add: simulationStep_skip stepHandshakes_no_beacon simulationStep_evaluated)

lemma simulationStep_totalHandshakes:
  "totalHandshakes (simulationStep ext config b sats st)
     = totalHandshakes st +
       length (stepHandshakes ext config b sats (previousConnectedIridiumSatIds st) (currentTime st))"
  by (cases "propagateSatellite ext b (currentTime st)")
     (simp_all add: simulationStep_skip stepHandshakes_no_beacon simulationStep_evaluated)

lemma simulationStep_previousConnected:
  "previousConnectedIridiumSatIds (simulationStep ext config b sats st)
     = (if propagateSatellite ext b (currentTime st) = None then previousConnectedIridiumSatIds st
        else activeLinkIds ext config b sats (currentTime st))"
  by (cases "propagateSatellite ext b (currentTime st)")
     (simp_all add: simulationStep_skip simulationStep_evaluated)

lemma simulationStep_activeLinksLog:
  "activeLinksLog (simulationStep ext config b sats st)
     = activeLinksLog st @
       (if propagateSatellite ext b (currentTime st) = None then []
        else [activeLinkIds ext config b sats (currentTime st)])"
  by (cases "propagateSatellite ext b (currentTime st)")
     (simp_all add: simulationStep_skip simulationStep_evaluated)

lemma simulationStep_beaconTrack:
  "beaconTrack (simulationStep ext config b sats st)
     = beaconTrack st @
       (case propagateSatellite ext b (currentTime st) of
          None \<Rightarrow> []
        | Some bp \<Rightarrow> [beaconTrackEntry ext bp (currentTime st)])"
  by (cases "propagateSatellite ext b (currentTime st)")
     (simp_all add: simulationStep_skip simulationStep_evaluated)

lemma simulationStep_blackout:
  "currentBlackout (simulationStep ext config b sats st)
     = (if propagateSatellite ext b (currentTime st) = None then currentBlackout st
        else if activeLinkIds ext config b sats (currentTime st) = {}
        then (case currentBlackout st of None \<Rightarrow> Some (currentTime st) | Some s \<Rightarrow> Some s)
        else None)"
  "blackoutPeriods (simulationStep ext config b sats st)
     = (if propagateSatellite ext b (currentTime st) = None
           \<or> activeLinkIds ext config b sats (currentTime st) = {}
        then blackoutPeriods st
        else (case currentBlackout st of
                None \<Rightarrow> blackoutPeriods st
              | Some s \<Rightarrow> blackoutPeriods st @
                  [\<lparr>startTime = s, endTime = currentTime st,
                    duration = real_of_int (currentTime st - s) / 1000\<rparr>]))"
proof -
  show "currentBlackout (simulationStep ext config b sats st)
     = (if propagateSatellite ext b (currentTime st) = None then currentBlackout st
        else if activeLinkIds ext config b sats (currentTime st) = {}
        then (case currentBlackout st of None \<Rightarrow> Some (currentTime st) | Some s \<Rightarrow> Some s)
        else None)"
  proof (cases "propagateSatellite ext b (currentTime st)")
    case None
    then show ?thesis by (simp add: simulationStep_skip)
  next
    case (Some bp)
    let ?st1 = "st\<lparr>beaconTrack := beaconTrack st @ [beaconTrackEntry ext bp (currentTime st)],
                  currentConnectedIridiumSatIdsThisStep := {},
                  beaconIsInCommunicationThisStep := False\<rparr>"
    have p1: "propagateSatellite ext b (currentTime ?st1) = Some bp" using Some by simp
    show ?thesis
      using Some foldl_iridiumIteration_inCommunication[OF p1, of config sats]
      by (simp add: simulationStep_def Let_def updateBlackout_def foldl_iridiumIteration_frame
          beaconTrackEntry_def split: option.splits)
  qed
  show "blackoutPeriods (simulationStep ext config b sats st)
     = (if propagateSatellite ext b (currentTime st) = None
           \<or> activeLinkIds ext config b sats (currentTime st) = {}
        then blackoutPeriods st
        else (case currentBlackout st of
                None \<Rightarrow> blackoutPeriods st
              | Some s \<Rightarrow> blackoutPeriods st @
                  [\<lparr>startTime = s, endTime = currentTime st,
                    duration = real_of_int (currentTime st - s) / 1000\<rparr>]))"
  proof (cases "propagateSatellite ext b (currentTime st)")
    case None
    then show ?thesis by (simp add: simulationStep_skip)
  next
    case (Some bp)
    let ?st1 = "st\<lparr>beaconTrack := beaconTrack st @ [beaconTrackEntry ext bp (currentTime st)],
                  currentConnectedIridiumSatIdsThisStep := {},
                  beaconIsInCommunicationThisStep := False\<rparr>"
    have p1: "propagateSatellite ext b (currentTime ?st1) = Some bp" using Some by simp
    show ?thesis
      using Some foldl_iridiumIteration_inCommunication[OF p1, of config sats]
      by (simp add: simulationStep_def Let_def updateBlackout_def foldl_iridiumIteration_frame
          beaconTrackEntry_def split: option.splits)
  qed
qed

lemmas simulationStep_fields = simulationStep_currentTime simulationStep_handshakeLog
  simulationStep_totalHandshakes simulationStep_previousConnected simulationStep_activeLinksLog
  simulationStep_beaconTrack simulationStep_blackout

subsection \<open>Invariants and termination of the loop\<close>

lemma simulationLoop_invariant:
  assumes run: "simulationLoop ext config b sats endDate st = Some st'"
    and init: "I st"
    and step: "\<And>s. I s \<Longrightarrow> currentTime s \<le> endDate \<Longrightarrow> I (simulationStep ext config b sats s)"
  shows "I st' \<and> \<not> currentTime st' \<le> endDate"
proof -
  let ?P = "\<lambda>ext config b sats endDate st y.
              \<forall>J. J st \<longrightarrow>
                (\<forall>s. J s \<and> currentTime s \<le> endDate \<longrightarrow> J (simulationStep ext config b sats s))
                \<longrightarrow> J y \<and> \<not> currentTime y \<le> endDate"
  have "?P ext config b sats endDate st st'"
  proof (rule simulationLoop.raw_induct[where P = ?P, OF _ run])
    fix loop ext config b sats endDate st y
    assume IH: "\<And>config b sats endDate st z y.
                  loop config b sats endDate st z = Some y \<Longrightarrow> ?P config b sats endDate st z y"
      and eq: "(if currentTime st \<le> endDate
                then loop ext config b sats endDate (simulationStep ext config b sats st)
                else Some st) = Some y"
    show "?P ext config b sats endDate st y"
    proof (cases "currentTime st \<le> endDate")
      case True
      with eq have "loop ext config b sats endDate (simulationStep ext config b sats st) = Some y"
        by simp
      from IH[OF this] True show ?thesis by blast
    next
      case False
      with eq show ?thesis by simp
    qed
  qed
  with init step show ?thesis by blast
qed

lemma expectedHandshakeLog_snoc:
  "expectedHandshakeLog ext config b sats prev (ts @ [t])
     = expectedHandshakeLog ext config b sats prev ts
       @ stepHandshakes ext config b sats (lastActive ext config b sats prev ts) t"
  by (induction ts arbitrary: prev) (simp_all add: lastActive_def)



lemma truncateTowardZero_of_int [simp]: "truncateTowardZero (real_of_int k) = k"
  by (simp add: truncateTowardZero_def)

lemma advanceTime_integer_step:
  "timeStepMs config = real_of_int s \<Longrightarrow> advanceTime config t = t + s"
proof -
  assume "timeStepMs config = real_of_int s"
  then have "real_of_int t + timeStepMs config = real_of_int (t + s)" by simp
  then show ?thesis unfolding advanceTime_def timeClip_def by (simp only: truncateTowardZero_of_int)
qed

lemma endDateOf_integer_duration:
  "simulationDurationMs config = real_of_int d \<Longrightarrow> endDateOf config t = t + d"
proof -
  assume "simulationDurationMs config = real_of_int d"
  then have "real_of_int t + simulationDurationMs config = real_of_int (t + d)" by simp
  then show ?thesis unfolding endDateOf_def timeClip_def by (simp only: truncateTowardZero_of_int)
qed


lemma runSimulation_Inr:
  assumes "runSimulation ext config startDate = Some (Inr res)"
  shows "\<exists>b st'. initializeBeacon ext config startDate = Some b
           \<and> simulationLoop ext config b (constellationOfRun ext config)
                (endDateOf config startDate)
                (initialLoopState (constellationOfRun ext config) startDate) = Some st'
           \<and> res = calculateFinalResults (finalizeBlackout st')"
  using assms
  by (auto simp: runSimulation_def constellationOfRun_def Let_def
      split: option.splits if_splits)

lemma finalizeBlackout_frame:
  "beaconTrack (finalizeBlackout st) = beaconTrack st"
  "activeLinksLog (finalizeBlackout st) = activeLinksLog st"
  "handshakeLog (finalizeBlackout st) = handshakeLog st"
  "totalHandshakes (finalizeBlackout st) = totalHandshakes st"
  "iridiumTracks (finalizeBlackout st) = iridiumTracks st"
  by (simp_all add: finalizeBlackout_def Let_def split: option.splits)

lemma calculateFinalResults_fields:
  "beaconTrack (calculateFinalResults st) = beaconTrack st"
  "activeLinksLog (calculateFinalResults st) = activeLinksLog st"
  "handshakeLog (calculateFinalResults st) = handshakeLog st"
  "totalHandshakes (calculateFinalResults st) = totalHandshakes st"
  "blackoutPeriods (calculateFinalResults st) = blackoutPeriods st"
  "iridiumTracks (calculateFinalResults st) = iridiumTracks st"
  by (simp_all add: calculateFinalResults_def Let_def)

lemma initialLoopState_fields:
  "currentTime (initialLoopState sats t) = t"
  "handshakeLog (initialLoopState sats t) = []"
  "totalHandshakes (initialLoopState sats t) = 0"
  "activeLinksLog (initialLoopState sats t) = []"
  "beaconTrack (initialLoopState sats t) = []"
  "blackoutPeriods (initialLoopState sats t) = []"
  "currentBlackout (initialLoopState sats t) = None"
  "previousConnectedIridiumSatIds (initialLoopState sats t) = {}"
  by (simp_all add: initialLoopState_def)

lemma finalizeBlackout_blackoutPeriods:
  "blackoutPeriods (finalizeBlackout st)
     = (case currentBlackout st of
          None \<Rightarrow> blackoutPeriods st
        | Some s \<Rightarrow> blackoutPeriods st @
            [\<lparr>startTime = s, endTime = currentTime st,
              duration = real_of_int (currentTime st - s) / 1000\<rparr>])"
  by (simp add: finalizeBlackout_def Let_def split: option.splits)

lemma foldl_duration_sum:
  "foldl (\<lambda>acc p. acc + duration p) a ps = a + sum_list (map duration ps)"
  by (induction ps arbitrary: a) simp_all

lemma calculateFinalResults_totals:
  "totalBlackoutDuration (calculateFinalResults st) = sum_list (map duration (blackoutPeriods st))"
  "numberOfBlackouts (calculateFinalResults st) = length (blackoutPeriods st)"
  "averageBlackoutDuration (calculateFinalResults st)
     = (if length (blackoutPeriods st) > 0
        then sum_list (map duration (blackoutPeriods st)) / real (length (blackoutPeriods st))
        else 0)"
  by (simp_all add: calculateFinalResults_def Let_def foldl_duration_sum)

lemma linksLogInv_step:
  assumes "linksLogInv ext config b sats st"
  shows "linksLogInv ext config b sats (simulationStep ext config b sats st)"
proof (cases "propagateSatellite ext b (currentTime st)")
  case None
  then show ?thesis using assms by (simp add: simulationStep_skip linksLogInv_def)
next
  case (Some bp)
  show ?thesis
    using assms Some
    by (simp add: linksLogInv_def simulationStep_evaluated[OF Some] beaconTrackEntry_def)
qed

lemma linksLogInv_initial: "linksLogInv ext config b sats (initialLoopState sats' startDate)"
  by (simp add: linksLogInv_def initialLoopState_def)

lemma handshakeInv_step:
  assumes "handshakeInv ext config b sats st"
  shows "handshakeInv ext config b sats (simulationStep ext config b sats st)"
proof (cases "propagateSatellite ext b (currentTime st)")
  case None
  then show ?thesis using assms by (simp add: simulationStep_skip handshakeInv_def)
next
  case (Some bp)
  show ?thesis
    using assms
    by (simp add: handshakeInv_def simulationStep_evaluated[OF Some] beaconTrackEntry_def
        expectedHandshakeLog_snoc lastActive_def)
qed

lemma handshakeInv_initial: "handshakeInv ext config b sats (initialLoopState sats' startDate)"
  by (simp add: handshakeInv_def initialLoopState_def lastActive_def)

subsection \<open>The concrete runs\<close>

lemma take7_tleLine1: "take 7 (tleLine1 ext ep) = ''1 99990''"
  by (simp add: tleLine1_def Let_def formatStringPadded_def padStart_def)

lemma demoExternals_twoline:
  "twoline2satrec demoExternals l1 l2 = TwolineSatrec (take 7 l1)"
  "satrecError demoExternals satrec = 0"
  by (simp_all add: demoExternals_def)

lemma demo_initializeBeacon:
  "initializeBeacon demoExternals demoConfig demoStart = Some ''1 99990''"
  "initializeBeacon demoExternals quietConfig demoStart = Some ''1 99990''"
proof -
  from demo_getSunRaDec(2) obtain s where s: "getSunRaDec demoExternals demoStart = Some s"
    by blast
  show "initializeBeacon demoExternals demoConfig demoStart = Some ''1 99990''"
    by (simp add: initializeBeacon_def demoConfig_def createSatrecForNonPolarBeacon_def
        createTLEStringsFromBeaconParams_def beaconInclinationAndRaan_def Let_def s
        length_tleLine1 length_tleLine2 satrecFromTLEStrings_def take7_tleLine1
        demoExternals_twoline)
  show "initializeBeacon demoExternals quietConfig demoStart = Some ''1 99990''"
    by (simp add: initializeBeacon_def quietConfig_def createSatrecForNonPolarBeacon_def
        createTLEStringsFromBeaconParams_def beaconInclinationAndRaan_def Let_def s
        length_tleLine1 length_tleLine2 satrecFromTLEStrings_def take7_tleLine1
        demoExternals_twoline)
qed

lemma demo_constellation:
  "constellationOfRun demoExternals demoConfig = [demoSat1, demoSat2]"
  "constellationOfRun demoExternals quietConfig = [demoSat2]"
  by (simp_all add: constellationOfRun_def initializeIridiumSatRecs_def List.map_filter_def
      initializeSatrecFromTLE_def demoExternals_def demoConfig_def quietConfig_def demoTLE1_def demoTLE2_def
      demoSat1_def demoSat2_def)

lemma demoExternals_propagate:
  "propagate demoExternals = demoPropagate"
  "eciToGeodetic demoExternals p t = Some \<lparr>latitudeRad = 0, longitudeRad = 0, height = 0\<rparr>"
  by (simp_all add: demoExternals_def)

lemma demo_propagateSatellite:
  "propagateSatellite demoExternals ''1 99990'' t =
     (if t = demoStart + 1200000 then None
      else if t = demoStart + 600000 then
        Some \<lparr>outPositionEci = \<lparr>nx = PlusInfinity, ny = Finite 0, nz = Finite 7000\<rparr>,
              outVelocityEci = demoVelocity,
              outPositionGeodetic = \<lparr>latitudeRad = 0, longitudeRad = 0, height = 0\<rparr>\<rparr>
      else Some \<lparr>outPositionEci = finiteVector \<lparr>cx = 0, cy = 0, cz = 7000\<rparr>,
                 outVelocityEci = demoVelocity,
                 outPositionGeodetic = \<lparr>latitudeRad = 0, longitudeRad = 0, height = 0\<rparr>\<rparr>)"
  "propagateSatellite demoExternals ''1 24792'' t =
     (if t = demoStart + 3600000 then None
      else Some \<lparr>outPositionEci = finiteVector \<lparr>cx = 0, cy = 0, cz = 7500\<rparr>,
                 outVelocityEci = demoVelocity,
                 outPositionGeodetic = \<lparr>latitudeRad = 0, longitudeRad = 0, height = 0\<rparr>\<rparr>)"
  "propagateSatellite demoExternals ''1 24793'' t =
     Some \<lparr>outPositionEci = finiteVector \<lparr>cx = 0, cy = 0, cz = - 7500\<rparr>,
           outVelocityEci = demoVelocity,
           outPositionGeodetic = \<lparr>latitudeRad = 0, longitudeRad = 0, height = 0\<rparr>\<rparr>"
  by (simp_all add: propagateSatellite_def demoExternals_propagate demoPropagate_def)

lemma sqrt_square_numeral: "0 \<le> y \<Longrightarrow> y * y = v \<Longrightarrow> sqrt v = y"
  by (rule real_sqrt_unique) (simp_all add: power2_eq_square)

lemma demo_los_above:
  "isLineOfSightClearDefault \<lparr>cx = 0, cy = 0, cz = 7000\<rparr> \<lparr>cx = 0, cy = 0, cz = 7500\<rparr>"
proof -
  have "sqrt 40589641000000 = 6371000" by (rule sqrt_square_numeral) simp_all
  then show ?thesis
    by (simp add: isLineOfSightClearDefault_def RADIUS_EARTH_KM_def los_unfold quadDiscriminant_def
        quadA_def quadB_def quadC_def param1_def param2_def onSegment_def endpointVerdict_def
        dotProduct_def subtract_def)
qed

lemma demo_los_behind:
  "\<not> isLineOfSightClearDefault \<lparr>cx = 0, cy = 0, cz = 7000\<rparr> \<lparr>cx = 0, cy = 0, cz = - 7500\<rparr>"
proof -
  have "sqrt 34135888081000000 = 184759000" by (rule sqrt_square_numeral) simp_all
  then show ?thesis
    by (simp add: isLineOfSightClearDefault_def RADIUS_EARTH_KM_def los_unfold quadDiscriminant_def
        quadA_def quadB_def quadC_def param1_def param2_def onSegment_def endpointVerdict_def
        dotProduct_def subtract_def)
qed

lemma demo_cone_above:
  "0 \<le> h \<Longrightarrow> isPointInCone \<lparr>cx = 0, cy = 0, cz = 7000\<rparr>
     (createIridiumCone \<lparr>cx = 0, cy = 0, cz = 7500\<rparr> h sid)"
  by (simp add: isPointInCone_def createIridiumCone_def getNadirVector_def scaleVec_def
      normalizeVec_def magnitude_axis_z subtract_def dotProduct_def Let_def)

lemma demo_cone_behind:
  "0 \<le> h \<Longrightarrow> isPointInCone \<lparr>cx = 0, cy = 0, cz = 7000\<rparr>
     (createIridiumCone \<lparr>cx = 0, cy = 0, cz = - 7500\<rparr> h sid)"
  by (simp add: isPointInCone_def createIridiumCone_def getNadirVector_def scaleVec_def
      normalizeVec_def magnitude_axis_z subtract_def dotProduct_def Let_def)

lemma demo_canCommunicate:
  "canCommunicate demoConfig sid (finiteVector \<lparr>cx = 0, cy = 0, cz = 7000\<rparr>) v
     (finiteVector \<lparr>cx = 0, cy = 0, cz = 7500\<rparr>) w"
  "\<not> canCommunicate demoConfig sid (finiteVector \<lparr>cx = 0, cy = 0, cz = 7000\<rparr>) v
       (finiteVector \<lparr>cx = 0, cy = 0, cz = - 7500\<rparr>) w"
  "\<not> canCommunicate quietConfig sid (finiteVector \<lparr>cx = 0, cy = 0, cz = 7000\<rparr>) v
       (finiteVector \<lparr>cx = 0, cy = 0, cz = - 7500\<rparr>) w"
  by (simp_all add: canCommunicate_def demoConfig_def quietConfig_def iridiumNadirHalfAngleRad_def
      demo_cone_above demo_cone_behind demo_los_above demo_los_behind)

text \<open>
  With the infinite coordinate the vector from the satellite to the Beacon has an infinite
  length, its normalization has a NaN coordinate, the angle is NaN, and the comparison
  with the half angle is false.
\<close>

lemma demo_canCommunicate_infinite:
  "\<not> canCommunicate demoConfig sid \<lparr>nx = PlusInfinity, ny = Finite 0, nz = Finite 7000\<rparr> v
       (finiteVector \<lparr>cx = 0, cy = 0, cz = z\<rparr>) w"
  "\<not> canCommunicate quietConfig sid \<lparr>nx = PlusInfinity, ny = Finite 0, nz = Finite 7000\<rparr> v
       (finiteVector \<lparr>cx = 0, cy = 0, cz = z\<rparr>) w"
  by (simp_all add: canCommunicate_def demoConfig_def quietConfig_def isPointInConeNum_def
      createIridiumConeNum_def subtractNum_def normalizeNum_def magnitudeNum_def dotProductNum_def
      minus_number_def mathMax_def mathMin_def Let_def)

lemma eciToCartesian_id [simp]: "eciToCartesian v = v"
  by (simp add: eciToCartesian_def)

lemma demo_times:
  "advanceTime demoConfig t = t + 1200000"
  "endDateOf demoConfig demoStart = demoStart + 3600000"
  "advanceTime quietConfig t = t + 1800000"
  "endDateOf quietConfig demoStart = demoStart + 3600000"
proof -
  have a: "timeStepMs demoConfig = real_of_int 1200000" by (simp add: timeStepMs_def demoConfig_def)
  show "advanceTime demoConfig t = t + 1200000" by (rule advanceTime_integer_step[OF a])
  have b: "timeStepMs quietConfig = real_of_int 1800000" by (simp add: timeStepMs_def quietConfig_def)
  show "advanceTime quietConfig t = t + 1800000" by (rule advanceTime_integer_step[OF b])
  have c: "simulationDurationMs demoConfig = real_of_int 3600000"
    by (simp add: simulationDurationMs_def demoConfig_def)
  show "endDateOf demoConfig demoStart = demoStart + 3600000"
    by (rule endDateOf_integer_duration[OF c])
  have d: "simulationDurationMs quietConfig = real_of_int 3600000"
    by (simp add: simulationDurationMs_def quietConfig_def)
  show "endDateOf quietConfig demoStart = demoStart + 3600000"
    by (rule endDateOf_integer_duration[OF d])
qed

lemma demo_linkActive:
  "linkActive demoExternals demoConfig ''1 99990'' t demoSat1
     = (t \<noteq> demoStart + 1200000 \<and> t \<noteq> demoStart + 3600000 \<and> t \<noteq> demoStart + 600000)"
  "linkActive demoExternals demoConfig ''1 99990'' t demoSat2 = False"
  "linkActive demoExternals quietConfig ''1 99990'' t demoSat2 = False"
  by (simp_all add: linkActive_def pairActive_def demo_propagateSatellite demoSat1_def demoSat2_def
      demo_canCommunicate demo_canCommunicate_infinite)

lemma demo_loop:
  "simulationLoop demoExternals demoConfig ''1 99990'' [demoSat1, demoSat2] (demoStart + 3600000)
     (initialLoopState [demoSat1, demoSat2] demoStart) = Some demoFinalState"
  unfolding demoFinalState_def
  by (simp add: simulationLoop.simps simulationStep_currentTime demo_times initialLoopState_fields)

lemma quiet_loop:
  "simulationLoop demoExternals quietConfig ''1 99990'' [demoSat2] (demoStart + 3600000)
     (initialLoopState [demoSat2] demoStart) = Some quietFinalState"
  unfolding quietFinalState_def
  by (simp add: simulationLoop.simps simulationStep_currentTime demo_times initialLoopState_fields)

lemma demo_geodetic:
  "geodeticToPosition demoExternals \<lparr>latitudeRad = 0, longitudeRad = 0, height = 0\<rparr>
     = \<lparr>latitude = 0, longitude = 0, altitude = 0\<rparr>"
  by (simp add: geodeticToPosition_def demoExternals_def)

lemma demo_run: "runSimulation demoExternals demoConfig demoStart = Some (Inr demoResults)"
proof -
  have c: "initializeIridiumSatRecs demoExternals
             (fetchIridiumTLEs demoExternals (iridiumDatasetSources demoConfig))
           = [demoSat1, demoSat2]"
    using demo_constellation(1) by (simp add: constellationOfRun_def)
  have f: "fetchIridiumTLEs demoExternals (iridiumDatasetSources demoConfig) = [demoTLE1, demoTLE2]"
    by (simp add: demoExternals_def demoConfig_def)
  show ?thesis
    unfolding runSimulation_def demo_initializeBeacon Let_def c demoResults_def
    by (simp add: f demo_times demo_loop)
qed

lemma quiet_run: "runSimulation demoExternals quietConfig demoStart = Some (Inr quietResults)"
proof -
  have c: "initializeIridiumSatRecs demoExternals
             (fetchIridiumTLEs demoExternals (iridiumDatasetSources quietConfig))
           = [demoSat2]"
    using demo_constellation(2) by (simp add: constellationOfRun_def)
  have f: "fetchIridiumTLEs demoExternals (iridiumDatasetSources quietConfig) = [demoTLE2]"
    by (simp add: demoExternals_def quietConfig_def)
  show ?thesis
    unfolding runSimulation_def demo_initializeBeacon Let_def c quietResults_def
    by (simp add: f demo_times quiet_loop)
qed

lemma demoSat_fields:
  "satId demoSat1 = ''IRIDIUM 1''" "satRec demoSat1 = ''1 24792''"
  "satId demoSat2 = ''IRIDIUM 2''" "satRec demoSat2 = ''1 24793''"
  by (simp_all add: demoSat1_def demoSat2_def)

lemmas demo_fields = calculateFinalResults_fields calculateFinalResults_totals
  finalizeBlackout_frame finalizeBlackout_blackoutPeriods simulationStep_fields
  initialLoopState_fields demo_propagateSatellite demo_times activeLinkIds_def demo_linkActive
  stepHandshakes_def handshakeRecord_def demo_geodetic beaconTrackEntry_def demoSat_fields

lemma demoResults_fields:
  "handshakeLog demoResults = [demoHandshake]"
  "totalHandshakes demoResults = 1"
  "activeLinksLog demoResults = [{''IRIDIUM 1''}, {''IRIDIUM 1''}, {}]"
  "map timestamp (beaconTrack demoResults)
     = [demoStart, demoStart + 2400000, demoStart + 3600000]"
  "blackoutPeriods demoResults
     = [\<lparr>startTime = demoStart + 3600000, endTime = demoStart + 4800000, duration = 1200\<rparr>]"
  "totalBlackoutDuration demoResults = 1200"
  "averageBlackoutDuration demoResults = 1200"
  "numberOfBlackouts demoResults = 1"
  unfolding demoResults_def demoFinalState_def
  by (simp_all add: demo_fields demoHandshake_def)

lemma quietResults_fields:
  "handshakeLog quietResults = []"
  "totalHandshakes quietResults = 0"
  "activeLinksLog quietResults = [{}, {}, {}]"
  "map timestamp (beaconTrack quietResults)
     = [demoStart, demoStart + 1800000, demoStart + 3600000]"
  "blackoutPeriods quietResults
     = [\<lparr>startTime = demoStart, endTime = demoStart + 5400000, duration = 5400\<rparr>]"
  "totalBlackoutDuration quietResults = 5400"
  "numberOfBlackouts quietResults = 1"
  unfolding quietResults_def quietFinalState_def
  by (simp_all add: demo_fields)

lemma demo_track_timestamps:
  "length (beaconTrack demoResults) = 3"
  "timestamp (beaconTrack demoResults ! 0) = demoStart"
  "timestamp (beaconTrack demoResults ! Suc 0) = demoStart + 2400000"
  "timestamp (beaconTrack demoResults ! 2) = demoStart + 3600000"
proof -
  note track = demoResults_fields(4)
  show len: "length (beaconTrack demoResults) = 3"
    using arg_cong[OF track, of length] by simp
  have n: "i < 3 \<Longrightarrow> timestamp (beaconTrack demoResults ! i)
                     = [demoStart, demoStart + 2400000, demoStart + 3600000] ! i" for i
    using nth_map[of i "beaconTrack demoResults" timestamp] len track by simp
  show "timestamp (beaconTrack demoResults ! 0) = demoStart" using n[of 0] by simp
  show "timestamp (beaconTrack demoResults ! Suc 0) = demoStart + 2400000" using n[of 1] by simp
  show "timestamp (beaconTrack demoResults ! 2) = demoStart + 3600000" using n[of 2] by simp
qed

lemma demoStateAfterFirstStep_fields:
  "currentTime demoStateAfterFirstStep = demoStart + 1200000"
  "previousConnectedIridiumSatIds demoStateAfterFirstStep = {''IRIDIUM 1''}"
  "handshakeLog demoStateAfterFirstStep = [demoHandshake]"
  unfolding demoStateAfterFirstStep_def
  by (simp_all add: demo_fields demoHandshake_def)


lemma quiet_no_link:
  "activeLinkIds demoExternals quietConfig ''1 99990''
     (constellationOfRun demoExternals quietConfig) t = {}"
  by (simp add: demo_constellation activeLinkIds_def demo_linkActive)


subsection \<open>The logs of a completed run\<close>

lemma expectedHandshakeLog_index:
  "expectedHandshakeLog ext config b sats prev ts
     = concat (map (\<lambda>i. stepHandshakes ext config b sats
                           (if i = 0 then prev else activeLinkIds ext config b sats (ts ! (i - 1)))
                           (ts ! i))
                 [0..<length ts])"
proof (induction ts rule: rev_induct)
  case Nil
  show ?case by simp
next
  case (snoc t ts)
  have old: "map (\<lambda>i. stepHandshakes ext config b sats
                 (if i = 0 then prev else activeLinkIds ext config b sats ((ts @ [t]) ! (i - 1)))
                 ((ts @ [t]) ! i)) [0..<length ts]
           = map (\<lambda>i. stepHandshakes ext config b sats
                 (if i = 0 then prev else activeLinkIds ext config b sats (ts ! (i - 1)))
                 (ts ! i)) [0..<length ts]"
    by (rule map_cong) (auto simp: nth_append)
  have new: "(if length ts = 0 then prev
              else activeLinkIds ext config b sats ((ts @ [t]) ! (length ts - 1)))
             = lastActive ext config b sats prev ts"
    by (cases "ts = []") (simp_all add: lastActive_def nth_append last_conv_nth)
  have "concat (map (\<lambda>i. stepHandshakes ext config b sats
                 (if i = 0 then prev else activeLinkIds ext config b sats ((ts @ [t]) ! (i - 1)))
                 ((ts @ [t]) ! i)) [0..<length (ts @ [t])])
        = concat (map (\<lambda>i. stepHandshakes ext config b sats
                 (if i = 0 then prev else activeLinkIds ext config b sats ((ts @ [t]) ! (i - 1)))
                 ((ts @ [t]) ! i)) [0..<length ts])
          @ stepHandshakes ext config b sats
              (if length ts = 0 then prev
               else activeLinkIds ext config b sats ((ts @ [t]) ! (length ts - 1))) t"
    by simp
  also have "\<dots> = expectedHandshakeLog ext config b sats prev ts
          @ stepHandshakes ext config b sats (lastActive ext config b sats prev ts) t"
    unfolding old new snoc.IH ..
  finally show ?case by (simp only: expectedHandshakeLog_snoc)
qed

lemma handshakeRecord_active:
  assumes "propagateSatellite ext b t = Some bp" and "linkActive ext config b t isat"
  shows "iridiumSatelliteId ` set (handshakeRecord ext bp t isat) = {satId isat}"
  using assms
  by (auto simp: linkActive_def pairActive_def handshakeRecord_def split: option.splits)

lemma stepHandshakes_ids:
  "iridiumSatelliteId ` set (stepHandshakes ext config b sats prev t)
     = activeLinkIds ext config b sats t - prev"
proof (cases "propagateSatellite ext b t")
  case None
  then show ?thesis by (simp add: stepHandshakes_no_beacon activeLinkIds_no_beacon)
next
  case (Some bp)
  show ?thesis
  proof (induction sats)
    case Nil
    show ?case by simp
  next
    case (Cons isat sats)
    show ?case
    proof (cases "linkActive ext config b t isat")
      case False
      then show ?thesis
        using Cons.IH by (simp add: stepHandshakes_Cons[OF Some] activeLinkIds_Cons)
    next
      case True
      note r = handshakeRecord_active[OF Some True]
      show ?thesis
      proof (cases "satId isat \<in> prev")
        case True
        then show ?thesis
          using Cons.IH \<open>linkActive ext config b t isat\<close>
          by (auto simp: stepHandshakes_Cons[OF Some] activeLinkIds_Cons)
      next
        case False
        then show ?thesis
          using Cons.IH \<open>linkActive ext config b t isat\<close> r
          by (simp add: stepHandshakes_Cons[OF Some] activeLinkIds_Cons image_Un insert_Diff_if)
      qed
    qed
  qed
qed

lemma run_invariant:
  assumes run: "runSimulation ext config startDate = Some (Inr res)"
    and b: "initializeBeacon ext config startDate = Some b"
    and init: "I (initialLoopState (constellationOfRun ext config) startDate)"
    and step: "\<And>s. I s \<Longrightarrow>
                 I (simulationStep ext config b (constellationOfRun ext config) s)"
  shows "\<exists>st'. I st' \<and> res = calculateFinalResults (finalizeBlackout st')"
proof -
  from runSimulation_Inr[OF run] b obtain st' where
    loop: "simulationLoop ext config b (constellationOfRun ext config)
             (endDateOf config startDate)
             (initialLoopState (constellationOfRun ext config) startDate) = Some st'"
    and res: "res = calculateFinalResults (finalizeBlackout st')"
    by auto
  from simulationLoop_invariant[OF loop, of I] init step have "I st'" by blast
  with res show ?thesis by blast
qed

text \<open>
  Claim C3. After a completed run the Beacon track and the log of active links have the
  same length, and entry \<open>i\<close> of the log is the set of ids of the Iridium satellites whose
  link is active at the instant of entry \<open>i\<close> of the track. Every entry of the track is an
  instant at which the Beacon propagated: a skipped step adds to neither list. The
  result is a record, so every one of its lists is present, possibly empty.
\<close>

theorem activeLinksLog_matches_beaconTrack:
  assumes "runSimulation ext config startDate = Some (Inr res)"
    and "initializeBeacon ext config startDate = Some b"
  shows "length (beaconTrack res) = length (activeLinksLog res)
         \<and> (\<forall>i < length (beaconTrack res).
               activeLinksLog res ! i
                 = activeLinkIds ext config b (constellationOfRun ext config)
                     (timestamp (beaconTrack res ! i))
               \<and> propagateSatellite ext b (timestamp (beaconTrack res ! i)) \<noteq> None)
         \<and> (propagateSatellite ext b (currentTime st) = None \<longrightarrow>
               beaconTrack (simulationStep ext config b sats st) = beaconTrack st
               \<and> activeLinksLog (simulationStep ext config b sats st) = activeLinksLog st)"
proof -
  have "\<exists>st'. linksLogInv ext config b (constellationOfRun ext config) st'
              \<and> res = calculateFinalResults (finalizeBlackout st')"
    by (rule run_invariant[OF assms]) (simp_all add: linksLogInv_initial linksLogInv_step)
  then obtain st' where inv: "linksLogInv ext config b (constellationOfRun ext config) st'"
    and res: "res = calculateFinalResults (finalizeBlackout st')"
    by blast
  have skip: "propagateSatellite ext b (currentTime st) = None \<longrightarrow>
               beaconTrack (simulationStep ext config b sats st) = beaconTrack st
               \<and> activeLinksLog (simulationStep ext config b sats st) = activeLinksLog st"
    by (simp add: simulationStep_skip)
  have "length (beaconTrack res) = length (activeLinksLog res)
         \<and> (\<forall>i < length (beaconTrack res).
               activeLinksLog res ! i
                 = activeLinkIds ext config b (constellationOfRun ext config)
                     (timestamp (beaconTrack res ! i))
               \<and> propagateSatellite ext b (timestamp (beaconTrack res ! i)) \<noteq> None)"
    using inv unfolding res linksLogInv_def
    by (simp add: calculateFinalResults_fields finalizeBlackout_frame)
  with skip show ?thesis by blast
qed

theorem activeLinksLog_matches_beaconTrack_witness:
  "runSimulation demoExternals demoConfig demoStart = Some (Inr demoResults)
   \<and> initializeBeacon demoExternals demoConfig demoStart = Some ''1 99990''
   \<and> length (beaconTrack demoResults) = 3 \<and> length (activeLinksLog demoResults) = 3
   \<and> timestamp (beaconTrack demoResults ! Suc 0) = demoStart + 2400000
   \<and> activeLinksLog demoResults ! Suc 0
       = activeLinkIds demoExternals demoConfig ''1 99990''
           (constellationOfRun demoExternals demoConfig) (demoStart + 2400000)
   \<and> activeLinksLog demoResults ! Suc 0 = {''IRIDIUM 1''}
   \<and> propagateSatellite demoExternals ''1 99990'' (demoStart + 2400000) \<noteq> None
   \<and> propagateSatellite demoExternals ''1 99990'' (currentTime demoStateAfterFirstStep) = None
   \<and> beaconTrack (simulationStep demoExternals demoConfig ''1 99990'' [demoSat1, demoSat2]
                    demoStateAfterFirstStep)
       = beaconTrack demoStateAfterFirstStep
   \<and> activeLinksLog (simulationStep demoExternals demoConfig ''1 99990'' [demoSat1, demoSat2]
                        demoStateAfterFirstStep)
       = activeLinksLog demoStateAfterFirstStep"
proof -
  note init = demo_initializeBeacon(1)
  note ts = demo_track_timestamps
  note main = activeLinksLog_matches_beaconTrack[OF demo_run init,
      of demoStateAfterFirstStep "[demoSat1, demoSat2]"]
  from main have len: "length (activeLinksLog demoResults) = 3" using ts(1) by simp
  from main have "Suc 0 < length (beaconTrack demoResults) \<longrightarrow>
       activeLinksLog demoResults ! Suc 0
         = activeLinkIds demoExternals demoConfig ''1 99990''
             (constellationOfRun demoExternals demoConfig)
             (timestamp (beaconTrack demoResults ! Suc 0))
       \<and> propagateSatellite demoExternals ''1 99990''
            (timestamp (beaconTrack demoResults ! Suc 0)) \<noteq> None"
    by (elim conjE) (erule allE)
  then have at1: "activeLinksLog demoResults ! Suc 0
         = activeLinkIds demoExternals demoConfig ''1 99990''
             (constellationOfRun demoExternals demoConfig) (demoStart + 2400000)"
    and p1: "propagateSatellite demoExternals ''1 99990'' (demoStart + 2400000) \<noteq> None"
    using ts(1,3) by simp_all
  have l1: "activeLinksLog demoResults ! Suc 0 = {''IRIDIUM 1''}"
    by (simp add: demoResults_fields)
  have f: "propagateSatellite demoExternals ''1 99990'' (currentTime demoStateAfterFirstStep) = None"
    by (simp add: demoStateAfterFirstStep_fields demo_propagateSatellite)
  from main f have sk: "beaconTrack (simulationStep demoExternals demoConfig ''1 99990''
                          [demoSat1, demoSat2] demoStateAfterFirstStep)
       = beaconTrack demoStateAfterFirstStep"
    "activeLinksLog (simulationStep demoExternals demoConfig ''1 99990'' [demoSat1, demoSat2]
                        demoStateAfterFirstStep)
       = activeLinksLog demoStateAfterFirstStep"
    by blast+
  show ?thesis
    by (intro conjI) (rule demo_run init ts(1) len ts(3) at1 l1 p1 f sk)+
qed

text \<open>
  Claim C2. In a completed run the handshake log is, evaluated step by evaluated step,
  the list of the handshakes of the satellites whose link is active at the step and whose
  id is not in the active-link set of the evaluated step before (the empty set at the
  first one). The ids that get a record at a step are the active ids that are not in the
  previous set, so a link that stays active gets no further record.
\<close>

theorem handshake_only_on_activation_edge:
  assumes "runSimulation ext config startDate = Some (Inr res)"
    and "initializeBeacon ext config startDate = Some b"
  shows "handshakeLog res
           = concat (map (\<lambda>i. stepHandshakes ext config b (constellationOfRun ext config)
                                 (if i = 0 then {} else activeLinksLog res ! (i - 1))
                                 (timestamp (beaconTrack res ! i)))
                       [0..<length (beaconTrack res)])
         \<and> iridiumSatelliteId `
               set (stepHandshakes ext config b (constellationOfRun ext config) prev t)
             = activeLinkIds ext config b (constellationOfRun ext config) t - prev"
proof -
  let ?sats = "constellationOfRun ext config"
  let ?I = "\<lambda>s. linksLogInv ext config b ?sats s \<and> handshakeInv ext config b ?sats s"
  have "\<exists>st'. ?I st' \<and> res = calculateFinalResults (finalizeBlackout st')"
    by (rule run_invariant[OF assms])
       (simp_all add: linksLogInv_initial linksLogInv_step handshakeInv_initial handshakeInv_step)
  then obtain st' where inv: "linksLogInv ext config b ?sats st'"
    and hinv: "handshakeInv ext config b ?sats st'"
    and res: "res = calculateFinalResults (finalizeBlackout st')"
    by blast
  have log: "handshakeLog res
             = expectedHandshakeLog ext config b ?sats {} (map timestamp (beaconTrack res))"
    using hinv unfolding res handshakeInv_def
    by (simp add: calculateFinalResults_fields finalizeBlackout_frame)
  have links: "activeLinksLog res
               = map (\<lambda>p. activeLinkIds ext config b ?sats (timestamp p)) (beaconTrack res)"
    using inv unfolding res linksLogInv_def
    by (simp add: calculateFinalResults_fields finalizeBlackout_frame)
  have m: "map (\<lambda>i. stepHandshakes ext config b ?sats
                   (if i = 0 then {}
                    else activeLinkIds ext config b ?sats
                           (map timestamp (beaconTrack res) ! (i - 1)))
                   (map timestamp (beaconTrack res) ! i))
          [0..<length (map timestamp (beaconTrack res))]
        = map (\<lambda>i. stepHandshakes ext config b ?sats
                   (if i = 0 then {} else activeLinksLog res ! (i - 1))
                   (timestamp (beaconTrack res ! i)))
          [0..<length (beaconTrack res)]"
    unfolding links by (auto intro!: map_cong)
  show ?thesis
    unfolding log expectedHandshakeLog_index m by (simp add: stepHandshakes_ids)
qed

theorem handshake_only_on_activation_edge_witness:
  "runSimulation demoExternals demoConfig demoStart = Some (Inr demoResults)
   \<and> initializeBeacon demoExternals demoConfig demoStart = Some ''1 99990''
   \<and> handshakeLog demoResults
       = stepHandshakes demoExternals demoConfig ''1 99990''
           (constellationOfRun demoExternals demoConfig) {} demoStart
         @ stepHandshakes demoExternals demoConfig ''1 99990''
             (constellationOfRun demoExternals demoConfig) {''IRIDIUM 1''} (demoStart + 2400000)
         @ stepHandshakes demoExternals demoConfig ''1 99990''
             (constellationOfRun demoExternals demoConfig) {''IRIDIUM 1''} (demoStart + 3600000)
   \<and> handshakeLog demoResults = [demoHandshake]
   \<and> stepHandshakes demoExternals demoConfig ''1 99990''
        (constellationOfRun demoExternals demoConfig) {''IRIDIUM 1''} (demoStart + 2400000) = []"
proof -
  note init = demo_initializeBeacon(1)
  note ts = demo_track_timestamps
  have u: "[0..<3] = [0, 1, 2]" by (simp add: upt_rec)
  from handshake_only_on_activation_edge[OF demo_run init]
  have a: "handshakeLog demoResults
         = stepHandshakes demoExternals demoConfig ''1 99990''
             (constellationOfRun demoExternals demoConfig) {} demoStart
           @ stepHandshakes demoExternals demoConfig ''1 99990''
               (constellationOfRun demoExternals demoConfig) {''IRIDIUM 1''}
               (demoStart + 2400000)
           @ stepHandshakes demoExternals demoConfig ''1 99990''
               (constellationOfRun demoExternals demoConfig) {''IRIDIUM 1''}
               (demoStart + 3600000)"
    by (simp add: ts u demoResults_fields(3))
  have b: "stepHandshakes demoExternals demoConfig ''1 99990''
          (constellationOfRun demoExternals demoConfig) {''IRIDIUM 1''} (demoStart + 2400000) = []"
    by (simp add: demo_constellation stepHandshakes_def demo_propagateSatellite demo_linkActive
        demoSat_fields)
  show ?thesis
    by (intro conjI) (rule demo_run init a demoResults_fields(1) b)+
qed

subsection \<open>Totals and blackout periods of the result\<close>

lemma blackoutPeriodsValid_step:
  assumes "blackoutPeriodsValid (blackoutPeriods st)"
  shows "blackoutPeriodsValid (blackoutPeriods (simulationStep ext config b sats st))"
  using assms
  by (simp add: simulationStep_blackout(2) blackoutPeriodsValid_def split: option.splits)

lemma blackoutPeriodsValid_finalize:
  assumes "blackoutPeriodsValid (blackoutPeriods st)"
  shows "blackoutPeriodsValid (blackoutPeriods (finalizeBlackout st))"
  using assms
  by (simp add: finalizeBlackout_blackoutPeriods blackoutPeriodsValid_def split: option.splits)

text \<open>
  Claim C10. Every result that \<open>runSimulation\<close> returns is consistent with itself: the
  handshake total is the length of the handshake log, the number of blackouts is the
  length of the list of blackout periods, the total blackout duration is the sum of
  their durations, the average is the total divided by the number when there is a
  blackout and \<open>0\<close> otherwise, and the duration of every blackout period is its end minus
  its start, divided by \<open>1000\<close>.
\<close>

theorem results_internally_consistent:
  assumes "runSimulation ext config startDate = Some (Inr res)"
  shows "totalHandshakes res = length (handshakeLog res)
         \<and> numberOfBlackouts res = length (blackoutPeriods res)
         \<and> totalBlackoutDuration res = sum_list (map duration (blackoutPeriods res))
         \<and> averageBlackoutDuration res
             = (if numberOfBlackouts res > 0
                then totalBlackoutDuration res / real (numberOfBlackouts res) else 0)
         \<and> blackoutPeriodsValid (blackoutPeriods res)"
proof -
  from runSimulation_Inr[OF assms] obtain b where
    b: "initializeBeacon ext config startDate = Some b" by blast
  let ?sats = "constellationOfRun ext config"
  let ?I = "\<lambda>s. handshakeInv ext config b ?sats s \<and> blackoutPeriodsValid (blackoutPeriods s)"
  have i0: "?I (initialLoopState ?sats startDate)"
    by (simp add: handshakeInv_initial initialLoopState_fields blackoutPeriodsValid_def)
  have "\<exists>st'. ?I st' \<and> res = calculateFinalResults (finalizeBlackout st')"
    by (rule run_invariant[where I = ?I, OF assms b i0])
       (simp add: handshakeInv_step blackoutPeriodsValid_step)
  then obtain st' where h: "handshakeInv ext config b ?sats st'"
    and v: "blackoutPeriodsValid (blackoutPeriods st')"
    and res: "res = calculateFinalResults (finalizeBlackout st')"
    by blast
  show ?thesis
    using h blackoutPeriodsValid_finalize[OF v] unfolding res handshakeInv_def
    by (simp add: calculateFinalResults_fields calculateFinalResults_totals finalizeBlackout_frame)
qed

theorem results_internally_consistent_witness:
  "runSimulation demoExternals demoConfig demoStart = Some (Inr demoResults)
   \<and> (totalHandshakes demoResults = length (handshakeLog demoResults)
      \<and> numberOfBlackouts demoResults = length (blackoutPeriods demoResults)
      \<and> totalBlackoutDuration demoResults
          = sum_list (map duration (blackoutPeriods demoResults))
      \<and> averageBlackoutDuration demoResults
          = (if numberOfBlackouts demoResults > 0
             then totalBlackoutDuration demoResults / real (numberOfBlackouts demoResults)
             else 0)
      \<and> blackoutPeriodsValid (blackoutPeriods demoResults))
   \<and> totalHandshakes demoResults = 1
   \<and> numberOfBlackouts demoResults = 1
   \<and> totalBlackoutDuration demoResults = 1200"
  by (rule conjI[OF demo_run conjI[OF results_internally_consistent[OF demo_run]
        conjI[OF demoResults_fields(2) conjI[OF demoResults_fields(8) demoResults_fields(6)]]]])

subsection \<open>Fatal and recoverable failures\<close>





text \<open>
  The initialization of the Beacon fails exactly when its parameters are out of range,
  or the position of the Sun cannot be computed at the start date, or the propagation
  library rejects the two synthesized lines; the lines always have the required length.
\<close>

lemma createTLEStrings_None_iff:
  "createTLEStringsFromBeaconParams ext params epochDate = None \<longleftrightarrow>
     altitudeOf params \<le> 0 \<or> getSunRaDec ext epochDate = None
     \<or> (case params of
          SunSynchronous alt lst \<Rightarrow> lst < 0 \<or> lst \<ge> 24
        | NonPolar alt inc raanOpt \<Rightarrow>
            inc < 0 \<or> inc > 180
            \<or> (case raanOpt of None \<Rightarrow> False | Some r \<Rightarrow> r < 0 \<or> r \<ge> 360))"
  by (cases params)
     (auto simp: createTLEStringsFromBeaconParams_def beaconInclinationAndRaan_def Let_def
        length_tleLine1 length_tleLine2 split: option.splits)

lemma initializeBeacon_None_iff:
  "initializeBeacon ext config startDate = None \<longleftrightarrow>
     (case beaconParams config of
        SunSynchronous alt lst \<Rightarrow> alt \<le> 0 \<or> lst < 0 \<or> lst \<ge> 24
      | NonPolar alt inc raanOpt \<Rightarrow>
          alt \<le> 0 \<or> inc < 0 \<or> inc > 180
          \<or> (case raanOpt of None \<Rightarrow> False | Some r \<Rightarrow> r < 0 \<or> r \<ge> 360))
     \<or> getSunRaDec ext startDate = None
     \<or> (\<exists>tleDataResult.
           createTLEStringsFromBeaconParams ext (beaconParams config) startDate = Some tleDataResult
           \<and> (twoline2satrec ext (tle1 tleDataResult) (tle2 tleDataResult) = TwolineThrows
              \<or> (\<exists>satrec. twoline2satrec ext (tle1 tleDataResult) (tle2 tleDataResult)
                             = TwolineSatrec satrec \<and> satrecError ext satrec \<noteq> 0)))"
proof (cases "createTLEStringsFromBeaconParams ext (beaconParams config) startDate")
  case None
  then show ?thesis
    using createTLEStrings_None_iff[of ext "beaconParams config" startDate]
    by (cases "beaconParams config")
       (auto simp: initializeBeacon_def createSatrecForSunSynchronousBeacon_def
          createSatrecForNonPolarBeacon_def split: option.splits)
next
  case (Some out)
  then show ?thesis
    using createTLEStrings_None_iff[of ext "beaconParams config" startDate]
    by (cases "beaconParams config")
       (auto simp: initializeBeacon_def createSatrecForSunSynchronousBeacon_def
          createSatrecForNonPolarBeacon_def satrecFromTLEStrings_def
          split: option.splits TwolineResult.splits)
qed





text \<open>
  Claim C9. A step at which the Beacon does not propagate changes the current time and
  nothing else: no blackout period is opened or closed and the set of previously
  connected satellites stays. So the step after it appends the handshakes that are new
  against the set of the last evaluated step, none of them for a satellite of that set.
\<close>

theorem skipped_step_changes_only_time:
  assumes "propagateSatellite ext b (currentTime st) = None"
  shows "simulationStep ext config b sats st
           = st\<lparr>currentTime := advanceTime config (currentTime st)\<rparr>
         \<and> blackoutPeriods (simulationStep ext config b sats st) = blackoutPeriods st
         \<and> currentBlackout (simulationStep ext config b sats st) = currentBlackout st
         \<and> previousConnectedIridiumSatIds (simulationStep ext config b sats st)
             = previousConnectedIridiumSatIds st
         \<and> handshakeLog (simulationStep ext config b sats (simulationStep ext config b sats st))
             = handshakeLog st @
               stepHandshakes ext config b sats (previousConnectedIridiumSatIds st)
                 (advanceTime config (currentTime st))
         \<and> iridiumSatelliteId `
               set (stepHandshakes ext config b sats (previousConnectedIridiumSatIds st)
                      (advanceTime config (currentTime st)))
             \<inter> previousConnectedIridiumSatIds st = {}"
proof -
  have skip: "simulationStep ext config b sats st
           = st\<lparr>currentTime := advanceTime config (currentTime st)\<rparr>"
    by (rule simulationStep_skip[OF assms])
  have ids: "iridiumSatelliteId `
               set (stepHandshakes ext config b sats (previousConnectedIridiumSatIds st)
                      (advanceTime config (currentTime st)))
             \<inter> previousConnectedIridiumSatIds st = {}"
    unfolding stepHandshakes_ids by blast
  have two: "handshakeLog (simulationStep ext config b sats (simulationStep ext config b sats st))
             = handshakeLog st @
               stepHandshakes ext config b sats (previousConnectedIridiumSatIds st)
                 (advanceTime config (currentTime st))"
    unfolding simulationStep_handshakeLog[of ext config b sats "simulationStep ext config b sats st"]
    by (simp add: skip)
  show ?thesis using skip ids two by simp
qed

theorem skipped_step_changes_only_time_witness:
  "propagateSatellite demoExternals ''1 99990'' (currentTime demoStateAfterFirstStep) = None
   \<and> previousConnectedIridiumSatIds demoStateAfterFirstStep = {''IRIDIUM 1''}
   \<and> linkActive demoExternals demoConfig ''1 99990'' (demoStart + 2400000) demoSat1
   \<and> simulationStep demoExternals demoConfig ''1 99990'' [demoSat1, demoSat2]
        demoStateAfterFirstStep
       = demoStateAfterFirstStep\<lparr>currentTime := demoStart + 2400000\<rparr>
   \<and> handshakeLog
        (simulationStep demoExternals demoConfig ''1 99990'' [demoSat1, demoSat2]
          (simulationStep demoExternals demoConfig ''1 99990'' [demoSat1, demoSat2]
             demoStateAfterFirstStep))
       = handshakeLog demoStateAfterFirstStep"
proof -
  have p: "propagateSatellite demoExternals ''1 99990'' (currentTime demoStateAfterFirstStep) = None"
    by (simp add: demoStateAfterFirstStep_fields demo_propagateSatellite)
  note main = skipped_step_changes_only_time[OF p, of demoConfig "[demoSat1, demoSat2]"]
  have l: "linkActive demoExternals demoConfig ''1 99990'' (demoStart + 2400000) demoSat1"
    by (simp add: demo_linkActive)
  have h: "stepHandshakes demoExternals demoConfig ''1 99990'' [demoSat1, demoSat2]
             {''IRIDIUM 1''} (demoStart + 2400000) = []"
    by (simp add: stepHandshakes_def demo_propagateSatellite demo_linkActive demoSat_fields)
  have t: "advanceTime demoConfig (currentTime demoStateAfterFirstStep) = demoStart + 2400000"
    by (simp add: demoStateAfterFirstStep_fields demo_times)
  have a: "simulationStep demoExternals demoConfig ''1 99990'' [demoSat1, demoSat2]
        demoStateAfterFirstStep
       = demoStateAfterFirstStep\<lparr>currentTime := demoStart + 2400000\<rparr>"
    using main[THEN conjunct1] unfolding t .
  have b: "handshakeLog
        (simulationStep demoExternals demoConfig ''1 99990'' [demoSat1, demoSat2]
          (simulationStep demoExternals demoConfig ''1 99990'' [demoSat1, demoSat2]
             demoStateAfterFirstStep))
       = handshakeLog demoStateAfterFirstStep"
    using main[THEN conjunct2, THEN conjunct2, THEN conjunct2, THEN conjunct2, THEN conjunct1]
    unfolding t demoStateAfterFirstStep_fields(2) h by simp
  show ?thesis
    by (intro conjI) (rule p demoStateAfterFirstStep_fields(2) l a b)+
qed

subsection \<open>Runs without any active link\<close>

lemma run_invariant_guarded:
  assumes run: "runSimulation ext config startDate = Some (Inr res)"
    and b: "initializeBeacon ext config startDate = Some b"
    and init: "I (initialLoopState (constellationOfRun ext config) startDate)"
    and step: "\<And>s. I s \<Longrightarrow> currentTime s \<le> endDateOf config startDate \<Longrightarrow>
                 I (simulationStep ext config b (constellationOfRun ext config) s)"
  shows "\<exists>st'. I st' \<and> \<not> currentTime st' \<le> endDateOf config startDate
           \<and> res = calculateFinalResults (finalizeBlackout st')"
proof -
  from runSimulation_Inr[OF run] b obtain st' where
    loop: "simulationLoop ext config b (constellationOfRun ext config)
             (endDateOf config startDate)
             (initialLoopState (constellationOfRun ext config) startDate) = Some st'"
    and res: "res = calculateFinalResults (finalizeBlackout st')"
    by auto
  from simulationLoop_invariant[where I = I, OF loop init step]
  have "I st' \<and> \<not> currentTime st' \<le> endDateOf config startDate" by blast
  with res show ?thesis by blast
qed

lemma stepHandshakes_no_active:
  assumes "activeLinkIds ext config b sats t = {}"
  shows "stepHandshakes ext config b sats prev t = []"
proof -
  have "iridiumSatelliteId ` set (stepHandshakes ext config b sats prev t) = {}"
    unfolding stepHandshakes_ids assms by simp
  then show ?thesis by simp
qed

lemma quietInv_step:
  assumes inv: "quietInv startDate endDate s k0 st"
    and guard: "currentTime st \<le> endDate"
    and step: "timeStepMs config = real_of_int s"
    and nolink: "\<And>k. 0 \<le> k \<Longrightarrow> startDate + k * s \<le> endDate \<Longrightarrow>
                   activeLinkIds ext config b sats (startDate + k * s) = {}"
    and first: "propagateSatellite ext b (startDate + k0 * s) \<noteq> None"
    and before: "\<And>k. 0 \<le> k \<Longrightarrow> k < k0 \<Longrightarrow> propagateSatellite ext b (startDate + k * s) = None"
  shows "quietInv startDate endDate s k0 (simulationStep ext config b sats st)"
proof -
  from inv obtain k where k: "0 \<le> k" and t: "currentTime st = startDate + k * s"
    and h: "handshakeLog st = []" "totalHandshakes st = 0" "blackoutPeriods st = []"
      "previousConnectedIridiumSatIds st = {}"
    and cb: "currentBlackout st = (if k \<le> k0 then None else Some (startDate + k0 * s))"
    unfolding quietInv_def by blast
  from guard t have le: "startDate + k * s \<le> endDate" by simp
  note A = nolink[OF k le]
  note H = stepHandshakes_no_active[OF A]
  have t': "currentTime (simulationStep ext config b sats st) = startDate + (k + 1) * s"
    by (simp add: simulationStep_currentTime advanceTime_integer_step[OF step] t algebra_simps)
  have cb': "currentBlackout (simulationStep ext config b sats st)
             = (if k + 1 \<le> k0 then None else Some (startDate + k0 * s))"
  proof (cases "propagateSatellite ext b (startDate + k * s)")
    case None
    with first have "k \<noteq> k0" by auto
    then show ?thesis using None by (auto simp: simulationStep_blackout(1) t cb)
  next
    case (Some bp)
    with before[OF k] have "\<not> k < k0" by auto
    then show ?thesis using Some A by (auto simp: simulationStep_blackout(1) t cb)
  qed
  have "0 \<le> k + 1 \<and> currentTime (simulationStep ext config b sats st) = startDate + (k + 1) * s
        \<and> (k + 1 = 0 \<or> startDate + (k + 1 - 1) * s \<le> endDate)
        \<and> handshakeLog (simulationStep ext config b sats st) = []
        \<and> totalHandshakes (simulationStep ext config b sats st) = 0
        \<and> blackoutPeriods (simulationStep ext config b sats st) = []
        \<and> previousConnectedIridiumSatIds (simulationStep ext config b sats st) = {}
        \<and> currentBlackout (simulationStep ext config b sats st)
            = (if k + 1 \<le> k0 then None else Some (startDate + k0 * s))"
    using k le t' cb' h A H
    by (simp add: simulationStep_handshakeLog simulationStep_totalHandshakes
        simulationStep_blackout(2) simulationStep_previousConnected t)
  then show ?thesis unfolding quietInv_def by blast
qed

lemma quietInv_exit:
  assumes inv: "quietInv startDate endDate s k0 st"
    and exit: "\<not> currentTime st \<le> endDate"
    and s: "1 \<le> s"
    and k0: "0 \<le> k0" "startDate + k0 * s \<le> endDate"
  shows "currentTime st = startDate + ((endDate - startDate) div s + 1) * s
         \<and> currentBlackout st = Some (startDate + k0 * s)
         \<and> handshakeLog st = [] \<and> totalHandshakes st = 0 \<and> blackoutPeriods st = []"
proof -
  from inv obtain k where k: "0 \<le> k" and t: "currentTime st = startDate + k * s"
    and prev: "k = 0 \<or> startDate + (k - 1) * s \<le> endDate"
    and h: "handshakeLog st = []" "totalHandshakes st = 0" "blackoutPeriods st = []"
    and cb: "currentBlackout st = (if k \<le> k0 then None else Some (startDate + k0 * s))"
    unfolding quietInv_def by blast
  from exit t have gt: "endDate < startDate + k * s" by simp
  with k0(2) have "k0 * s < k * s" by simp
  with s have kk: "k0 < k" by (simp add: mult_less_cancel_right)
  with k0(1) prev have pl: "startDate + (k - 1) * s \<le> endDate" by auto
  have "(endDate - startDate) div s = k - 1"
  proof (rule int_div_pos_eq[where r = "endDate - startDate - (k - 1) * s"])
    show "endDate - startDate = s * (k - 1) + (endDate - startDate - (k - 1) * s)"
      by (simp add: algebra_simps)
    show "0 \<le> endDate - startDate - (k - 1) * s" using pl by simp
    show "endDate - startDate - (k - 1) * s < s" using gt by (simp add: algebra_simps)
  qed
  then have "currentTime st = startDate + ((endDate - startDate) div s + 1) * s"
    using t by simp
  then show ?thesis using kk cb h by simp
qed

text \<open>
  Claim C5, as amended. Take a completed run whose time step is a whole number \<open>s \<ge> 1\<close> of
  milliseconds, so that the loop visits the instants \<open>start + k s\<close> up to the end date
  included, in which no link is active at any of these instants and the Beacon first
  propagates at the instant \<open>start + k0 s\<close>. The run has no handshake and exactly one
  blackout period; it starts at \<open>start + k0 s\<close> and ends at the instant after the last one
  visited, \<open>start + ((end - start) div s + 1) s\<close>, and the total blackout duration is the
  length of that period in seconds.
\<close>

theorem no_link_run_is_one_blackout:
  assumes run: "runSimulation ext config startDate = Some (Inr res)"
    and b: "initializeBeacon ext config startDate = Some b"
    and step: "timeStepMs config = real_of_int s" and s: "1 \<le> s"
    and nolink: "\<And>k. 0 \<le> k \<Longrightarrow> startDate + k * s \<le> endDateOf config startDate \<Longrightarrow>
                   activeLinkIds ext config b (constellationOfRun ext config)
                     (startDate + k * s) = {}"
    and k0: "0 \<le> k0" "startDate + k0 * s \<le> endDateOf config startDate"
    and first: "propagateSatellite ext b (startDate + k0 * s) \<noteq> None"
    and before: "\<And>k. 0 \<le> k \<Longrightarrow> k < k0 \<Longrightarrow> propagateSatellite ext b (startDate + k * s) = None"
  shows "handshakeLog res = [] \<and> totalHandshakes res = 0
         \<and> blackoutPeriods res
             = [\<lparr>startTime = startDate + k0 * s,
                 endTime = startDate + ((endDateOf config startDate - startDate) div s + 1) * s,
                 duration = real_of_int
                   (((endDateOf config startDate - startDate) div s + 1 - k0) * s) / 1000\<rparr>]
         \<and> numberOfBlackouts res = 1
         \<and> totalBlackoutDuration res
             = real_of_int (((endDateOf config startDate - startDate) div s + 1 - k0) * s) / 1000"
proof -
  let ?E = "endDateOf config startDate"
  let ?I = "quietInv startDate ?E s k0"
  have i0: "?I (initialLoopState (constellationOfRun ext config) startDate)"
    unfolding quietInv_def
    by (rule exI[of _ 0]) (use k0(1) in \<open>simp add: initialLoopState_fields\<close>)
  have "\<exists>st'. ?I st' \<and> \<not> currentTime st' \<le> ?E
          \<and> res = calculateFinalResults (finalizeBlackout st')"
    by (rule run_invariant_guarded[where I = ?I, OF run b i0])
       (rule quietInv_step[OF _ _ step nolink first before])
  then obtain st' where inv: "?I st'" and exit: "\<not> currentTime st' \<le> ?E"
    and res: "res = calculateFinalResults (finalizeBlackout st')"
    by blast
  note e = quietInv_exit[OF inv exit s k0]
  have bp: "blackoutPeriods (finalizeBlackout st')
             = [\<lparr>startTime = startDate + k0 * s,
                 endTime = startDate + ((?E - startDate) div s + 1) * s,
                 duration = real_of_int (((?E - startDate) div s + 1 - k0) * s) / 1000\<rparr>]"
    using e by (simp add: finalizeBlackout_blackoutPeriods algebra_simps)
  show ?thesis
    unfolding res
    using e bp
    by (simp add: calculateFinalResults_fields calculateFinalResults_totals finalizeBlackout_frame)
qed

theorem no_link_run_is_one_blackout_witness:
  "runSimulation demoExternals quietConfig demoStart = Some (Inr quietResults)
   \<and> initializeBeacon demoExternals quietConfig demoStart = Some ''1 99990''
   \<and> timeStepMs quietConfig = real_of_int 1800000
   \<and> endDateOf quietConfig demoStart = demoStart + 3600000
   \<and> activeLinkIds demoExternals quietConfig ''1 99990''
        (constellationOfRun demoExternals quietConfig) demoStart = {}
   \<and> activeLinkIds demoExternals quietConfig ''1 99990''
        (constellationOfRun demoExternals quietConfig) (demoStart + 1800000) = {}
   \<and> activeLinkIds demoExternals quietConfig ''1 99990''
        (constellationOfRun demoExternals quietConfig) (demoStart + 3600000) = {}
   \<and> propagateSatellite demoExternals ''1 99990'' demoStart \<noteq> None
   \<and> handshakeLog quietResults = []
   \<and> blackoutPeriods quietResults
       = [\<lparr>startTime = demoStart, endTime = demoStart + 5400000, duration = 5400\<rparr>]
   \<and> numberOfBlackouts quietResults = 1
   \<and> totalBlackoutDuration quietResults = 5400"
proof -
  have st: "timeStepMs quietConfig = real_of_int 1800000"
    by (simp add: timeStepMs_def quietConfig_def)
  have s: "(1::int) \<le> 1800000" by simp
  have k0: "(0::int) \<le> 0" "demoStart + 0 * 1800000 \<le> endDateOf quietConfig demoStart"
    by (simp_all add: demo_times)
  have first: "propagateSatellite demoExternals ''1 99990'' (demoStart + 0 * 1800000) \<noteq> None"
    by (simp add: demo_propagateSatellite)
  have before: "\<And>k::int. 0 \<le> k \<Longrightarrow> k < 0 \<Longrightarrow>
                  propagateSatellite demoExternals ''1 99990'' (demoStart + k * 1800000) = None"
    by simp
  note main = no_link_run_is_one_blackout[OF quiet_run demo_initializeBeacon(2) st s
      quiet_no_link k0 first before]
  have d: "(demoStart + 3600000 - demoStart) div (1800000::int) + 1 = 3" by simp
  from main have h: "handshakeLog quietResults = []" by (rule conjunct1)
  from main have bp: "blackoutPeriods quietResults
       = [\<lparr>startTime = demoStart, endTime = demoStart + 5400000, duration = 5400\<rparr>]"
    unfolding demo_times d by simp
  from main have n: "numberOfBlackouts quietResults = 1" by simp
  from main have tot: "totalBlackoutDuration quietResults = 5400"
    unfolding demo_times d by simp
  have p0: "propagateSatellite demoExternals ''1 99990'' demoStart \<noteq> None"
    by (simp add: demo_propagateSatellite)
  show ?thesis
    by (intro conjI)
       (rule quiet_run demo_initializeBeacon(2) st demo_times(4) quiet_no_link p0 h bp n tot)+
qed

text \<open>
  The claim as first stated gives the total as the configured duration. One hour in steps
  of thirty minutes, without any active link, visits the start and the instants \<open>1800\<close>
  and \<open>3600\<close> seconds after it, and closes its only blackout \<open>5400\<close> seconds after the start:
  the total is \<open>5400\<close>, the configured duration \<open>3600\<close>.
\<close>

theorem blackout_duration_counterexample:
  "runSimulation demoExternals quietConfig demoStart = Some (Inr quietResults)
   \<and> activeLinksLog quietResults = [{}, {}, {}]
   \<and> map timestamp (beaconTrack quietResults)
       = [demoStart, demoStart + 1800000, demoStart + 3600000]
   \<and> handshakeLog quietResults = []
   \<and> numberOfBlackouts quietResults = 1
   \<and> totalBlackoutDuration quietResults = 5400
   \<and> simulationDurationHours quietConfig * 3600 = 3600
   \<and> totalBlackoutDuration quietResults \<noteq> simulationDurationHours quietConfig * 3600"
proof -
  have d: "simulationDurationHours quietConfig * 3600 = 3600" by (simp add: quietConfig_def)
  have ne: "totalBlackoutDuration quietResults \<noteq> simulationDurationHours quietConfig * 3600"
    unfolding d quietResults_fields(6) by simp
  show ?thesis
    by (intro conjI)
       (rule quiet_run quietResults_fields(3) quietResults_fields(4) quietResults_fields(1)
          quietResults_fields(7) quietResults_fields(6) d ne)+
qed

end
